theory Spec2Isabelle
  imports Main
begin

section \<open>Values shared by the gateways and the views\<close>

text \<open>
  A JavaScript string is a sequence of UTF-16 code units. The strings whose content
  comes from outside and can be any text (the text the model returns, the prompt the
  user types, the evaluated system instruction) are lists of code units, \<open>nat list\<close>.
  The strings the source writes itself or takes apart at ASCII punctuation (messages,
  labels, names, MIME types, data URLs and their base64 payloads) are \<open>string\<close>, one
  \<open>char\<close> per code unit; \<open>units\<close> gives the code units of such a string.
\<close>

definition units :: "string \<Rightarrow> nat list" where
  "units s = map of_char s"

text \<open>
  A thrown JavaScript value is one of: an \<open>Error\<close> built by the source with a message
  (\<open>new Error(msg)\<close>), a \<open>TypeError\<close> or \<open>SyntaxError\<close> raised by the engine (their
  messages are engine specific and not kept), or a rejection coming from outside the
  repository (the SDK call, \<open>getUserMedia\<close>) with its \<open>name\<close> and \<open>message\<close>.
\<close>

datatype thrown =
    JsError string
  | JsTypeError
  | JsSyntaxError
  | Rejected string string

fun name_of :: "thrown \<Rightarrow> string" where
  "name_of (JsError m) = ''Error''"
| "name_of JsTypeError = ''TypeError''"
| "name_of JsSyntaxError = ''SyntaxError''"
| "name_of (Rejected n m) = n"

section \<open>The gateways (src/services/geminiService.ts)\<close>

subsection \<open>The SDK's request and response objects\<close>

text \<open>
  \<open>Part\<close>, \<open>Content\<close>, \<open>Candidate\<close> and \<open>GenerateContentResponse\<close> are types of the SDK.
  Every property the source reads is optional there, so each is an \<open>option\<close>:
  \<open>None\<close> is JavaScript's \<open>undefined\<close>. \<open>response_text\<close> is the property
  \<open>response.text\<close>, \<open>part_text\<close> the property \<open>text\<close> of a part. The SDK computes
  \<open>response.text\<close> from the parts; the source reads it as a property of its own, and
  \<open>analyzeParkingSign\<close> reads nothing else of the response.
\<close>

record blob =
  data :: "string option"
  mimeType :: "string option"

record part =
  inlineData :: "blob option"
  part_text :: "nat list option"

record content =
  parts :: "part list option"

record candidate =
  content :: "content option"

record response =
  response_text :: "nat list option"
  candidates :: "candidate list option"

datatype schema =
    STRING
  | ARRAY schema
  | OBJECT "(string \<times> schema) list" "string list"

record config =
  systemInstruction :: "nat list"
  responseMimeType :: string
  responseSchema :: schema

record request =
  model :: string
  contents :: "part list"
  config :: "config option"

subsection \<open>Camera values\<close>

text \<open>
  The argument of \<open>getUserMedia\<close>: \<open>video: true\<close>, or a facing mode with ideal width and
  height. A \<open>MediaStream\<close> is the list of its tracks, each named by a number.
\<close>

datatype video_constraints =
    AnyVideo
  | Facing string nat nat

record constraints =
  video :: video_constraints
  audio :: bool

datatype stream = MediaStream (getTracks: "nat list")

subsection \<open>Effects\<close>

text \<open>
  What the program does to the outside, in the order it happens: the request handed to
  \<open>ai.models.generateContent\<close>, a line written with \<open>console.warn\<close> or
  \<open>console.error\<close>, a call of \<open>getUserMedia\<close>, \<open>track.stop()\<close>, and the calls of the two
  gateways from the views (\<open>processImage\<close> can be handed \<open>null\<close>, the result of a
  failed read, and passes it on).
\<close>

datatype effect =
    GenerateContent request
  | ConsoleWarn string thrown
  | ConsoleError string thrown
  | GetUserMedia constraints
  | TrackStop nat
  | AnalyzeParkingSign "string option"
  | EditImage string "nat list"

subsection \<open>\<open>base64Image.split(',')[1]\<close>\<close>

text \<open>
  \<open>String.prototype.split\<close> with a one-character separator: the segments between the
  separators, in order; a string without the separator is its own single segment.
\<close>

fun js_split :: "char \<Rightarrow> string \<Rightarrow> string list" where
  "js_split sep [] = [[]]"
| "js_split sep (c # cs) =
     (if c = sep then [] # js_split sep cs
      else (case js_split sep cs of
              [] \<Rightarrow> [[c]]
            | seg # segs \<Rightarrow> (c # seg) # segs))"

text \<open>Array indexing: out of range is \<open>undefined\<close>.\<close>

fun js_index :: "'a list \<Rightarrow> nat \<Rightarrow> 'a option" where
  "js_index [] i = None"
| "js_index (x # xs) 0 = Some x"
| "js_index (x # xs) (Suc i) = js_index xs i"

definition payload_of :: "string \<Rightarrow> string option" where
  "payload_of base64Image = js_index (js_split CHR '','' base64Image) 1"

subsection \<open>The requests\<close>

definition image_part :: "string \<Rightarrow> part" where
  "image_part base64Image =
     \<lparr>inlineData = Some \<lparr>data = payload_of base64Image, mimeType = Some ''image/jpeg''\<rparr>,
      part_text = None\<rparr>"

definition text_part :: "nat list \<Rightarrow> part" where
  "text_part t = \<lparr>inlineData = None, part_text = Some t\<rparr>"

definition analysis_schema :: schema where
  "analysis_schema =
     OBJECT
       [(''status'', STRING),
        (''summary'', STRING),
        (''details'', ARRAY STRING),
        (''durationLimit'', STRING),
        (''costInfo'', STRING),
        (''timeWindow'', STRING)]
       [''status'', ''summary'', ''details'']"

text \<open>
  The request of \<open>analyzeParkingSign\<close>. Its \<open>systemInstruction\<close> is the template literal
  of the source evaluated at call time: it embeds \<open>new Date().toLocaleString(...)\<close>, so
  the evaluated text is an argument.
\<close>

definition analyze_request :: "nat list \<Rightarrow> string \<Rightarrow> request" where
  "analyze_request instruction base64Image =
     \<lparr>model = ''gemini-3-flash-preview'',
      contents =
        [image_part base64Image,
         text_part (units ''Is parking allowed here right now for a private car? Respond in English but base the logic on Swedish laws.'')],
      config = Some
        \<lparr>systemInstruction = instruction,
         responseMimeType = ''application/json'',
         responseSchema = analysis_schema\<rparr>\<rparr>"

definition edit_request :: "string \<Rightarrow> nat list \<Rightarrow> request" where
  "edit_request base64Image prompt =
     \<lparr>model = ''gemini-2.5-flash-image'',
      contents = [image_part base64Image, text_part prompt],
      config = None\<rparr>"

subsection \<open>\<open>editImage\<close>\<close>

text \<open>
  A template literal prints \<open>undefined\<close> for an absent value.
\<close>

fun template_string :: "string option \<Rightarrow> string" where
  "template_string None = ''undefined''"
| "template_string (Some s) = s"

text \<open>
  The \<open>for ... of\<close> loop over \<open>candidate.content.parts\<close>: the first part whose
  \<open>inlineData\<close> is truthy ends the function; falling out of the loop reaches the
  \<open>throw\<close> after it.
\<close>

fun scan_parts :: "part list \<Rightarrow> thrown + string" where
  "scan_parts [] = Inl (JsError ''No image data returned from model'')"
| "scan_parts (p # ps) =
     (case inlineData p of
        Some b \<Rightarrow> Inr (''data:image/png;base64,'' @ template_string (data b))
      | None \<Rightarrow> scan_parts ps)"

text \<open>
  The body of the \<open>try\<close> block after the awaited call. \<open>response.candidates?.[0]\<close> is
  \<open>undefined\<close> for an absent or empty list; \<open>candidate.content.parts\<close> has no optional
  chaining, so an absent \<open>content\<close> or an absent \<open>parts\<close> raises a \<open>TypeError\<close>.
\<close>

definition edit_try :: "response \<Rightarrow> thrown + string" where
  "edit_try response =
     (case candidates response of
        None \<Rightarrow> Inl (JsError ''No image data returned from model'')
      | Some [] \<Rightarrow> Inl (JsError ''No image data returned from model'')
      | Some (candidate # _) \<Rightarrow>
          (case content candidate of
             None \<Rightarrow> Inl JsTypeError
           | Some c \<Rightarrow>
               (case parts c of
                  None \<Rightarrow> Inl JsTypeError
                | Some ps \<Rightarrow> scan_parts ps)))"

text \<open>
  \<open>editImage\<close>. \<open>reply\<close> is how the awaited \<open>ai.models.generateContent\<close> settles:
  \<open>Inl\<close> when its promise rejects. The \<open>catch\<close> block receives whatever the \<open>try\<close>
  block threw, the rejection or the source's own \<open>throw\<close> alike, logs it and throws a new
  fixed \<open>Error\<close>. The result is the effects in order and the settled promise of
  \<open>editImage\<close> itself (\<open>Inl\<close>: rejected). The model starts after the client object is built.
\<close>

definition editImage ::
  "string \<Rightarrow> nat list \<Rightarrow> thrown + response \<Rightarrow> effect list \<times> (thrown + string)" where
  "editImage base64Image prompt reply =
     (let req = edit_request base64Image prompt;
          attempt = (case reply of
                       Inl e \<Rightarrow> Inl e
                     | Inr response \<Rightarrow> edit_try response)
      in case attempt of
           Inr url \<Rightarrow> ([GenerateContent req], Inr url)
         | Inl e \<Rightarrow>
             ([GenerateContent req, ConsoleError ''Image editing error:'' e],
              Inl (JsError ''Failed to edit image'')))"

subsection \<open>\<open>JSON.parse\<close>\<close>

text \<open>
  \<open>JSON.parse\<close> is the platform's; \<open>analyzeParkingSign\<close> returns what it returns, so the
  values it can build are modelled: the JSON grammar of ECMA-404, read by a tokenizer
  and a pushdown recogniser. A number keeps its literal (its reading as a double is
  floating point and is left out). The text and the decoded strings are lists of
  code units. An object is the list of its members in the order of their
  first occurrence, a repeated key replacing the earlier value (JavaScript enumerates
  integer-like keys first; nothing here reads the order).
\<close>

datatype json =
    JNull
  | JBool bool
  | JNumber "nat list"
  | JString "nat list"
  | JArray "json list"
  | JObject "(nat list \<times> json) list"

datatype token =
    LBrace | RBrace | LBracket | RBracket | Colon | Comma
  | TString "nat list"
  | TNumber "nat list"
  | TTrue | TFalse | TNull

definition is_digit :: "nat \<Rightarrow> bool" where
  "is_digit c = (48 \<le> c \<and> c \<le> 57)"

definition is_json_ws :: "nat \<Rightarrow> bool" where
  "is_json_ws c = (c \<in> {9, 10, 13, 32})"

definition hex_digit :: "nat \<Rightarrow> nat option" where
  "hex_digit n =
     (if 48 \<le> n \<and> n \<le> 57 then Some (n - 48)
      else if 65 \<le> n \<and> n \<le> 70 then Some (n - 55)
      else if 97 \<le> n \<and> n \<le> 102 then Some (n - 87)
      else None)"

definition hex4 :: "nat \<Rightarrow> nat \<Rightarrow> nat \<Rightarrow> nat \<Rightarrow> nat option" where
  "hex4 a b c d =
     (case (hex_digit a, hex_digit b, hex_digit c, hex_digit d) of
        (Some h3, Some h2, Some h1, Some h0) \<Rightarrow> Some (((h3 * 16 + h2) * 16 + h1) * 16 + h0)
      | _ \<Rightarrow> None)"

text \<open>The character after a backslash, other than \<open>u\<close>.\<close>

definition escape_unit :: "nat \<Rightarrow> nat option" where
  "escape_unit c =
     (if c = 0x22 then Some 0x22
      else if c = 0x5C then Some 0x5C
      else if c = of_char CHR ''/'' then Some 0x2F
      else if c = of_char CHR ''b'' then Some 8
      else if c = of_char CHR ''f'' then Some 12
      else if c = of_char CHR ''n'' then Some 10
      else if c = of_char CHR ''r'' then Some 13
      else if c = of_char CHR ''t'' then Some 9
      else None)"

text \<open>One escape sequence, read after its backslash: the code unit and the rest.\<close>

definition unescape :: "nat list \<Rightarrow> (nat \<times> nat list) option" where
  "unescape cs =
     (case cs of
        [] \<Rightarrow> None
      | e # r \<Rightarrow>
          if e = of_char CHR ''u'' then
            (case r of
               h3 # h2 # h1 # h0 # r' \<Rightarrow> map_option (\<lambda>u. (u, r')) (hex4 h3 h2 h1 h0)
             | _ \<Rightarrow> None)
          else map_option (\<lambda>u. (u, r)) (escape_unit e))"

lemma unescape_shorter: "unescape cs = Some (u, r) \<Longrightarrow> length r < length cs"
  unfolding unescape_def
  by (cases cs) (auto split: if_splits list.splits)

text \<open>
  A string literal, read after its opening quote: the decoded units and the rest after
  the closing quote. A control character below 0x20 is not allowed unescaped.
\<close>

function lex_string :: "nat list \<Rightarrow> (nat list \<times> nat list) option" where
  "lex_string [] = None"
| "lex_string (c # cs) =
     (if c = 0x22 then Some ([], cs)
      else if c = 0x5C then
        (case unescape cs of
           None \<Rightarrow> None
         | Some (u, r) \<Rightarrow> map_option (apfst (Cons u)) (lex_string r))
      else if c < 0x20 then None
      else map_option (apfst (Cons c)) (lex_string cs))"
  by pat_completeness auto
termination
proof (relation "measure length")
  fix c :: nat and cs :: "nat list" and x2 :: "nat \<times> nat list" and u r
  assume "unescape cs = Some x2" and "(u, r) = x2"
  then have "unescape cs = Some (u, r)" by simp
  from unescape_shorter [OF this] show "(r, c # cs) \<in> measure length" by simp
qed simp_all

lemma lex_string_shorter: "lex_string cs = Some (s, rest) \<Longrightarrow> length rest < length cs"
proof (induction cs arbitrary: s rest rule: lex_string.induct)
  case 1
  then show ?case by simp
next
  case (2 c cs)
  show ?case
  proof (cases "c = 0x22")
    case True
    with 2(3) show ?thesis by simp
  next
    case quote: False
    show ?thesis
    proof (cases "c = 0x5C")
      case True
      with quote 2(3) obtain u r s' where
        un: "unescape cs = Some (u, r)" and rec: "lex_string r = Some (s', rest)"
        by (auto split: option.splits)
      from 2(1) [OF quote True un refl rec] unescape_shorter [OF un]
      show ?thesis by simp
    next
      case False
      with quote 2(3) obtain s' where
        ctl: "\<not> c < 0x20" and rec: "lex_string cs = Some (s', rest)"
        by (auto split: if_splits)
      from 2(2) [OF quote False ctl rec] show ?thesis by simp
    qed
  qed
qed

text \<open>
  A number literal: \<open>-? (0 | [1-9][0-9]*) (. [0-9]+)? ([eE] [+-]? [0-9]+)?\<close>. Each
  part gives its text and the rest.
\<close>

definition int_part :: "nat list \<Rightarrow> (nat list \<times> nat list) option" where
  "int_part r =
     (case r of
        [] \<Rightarrow> None
      | d # r' \<Rightarrow>
          if d = of_char CHR ''0'' then Some ([d], r')
          else if is_digit d then Some (takeWhile is_digit r, dropWhile is_digit r)
          else None)"

definition frac_part :: "nat list \<Rightarrow> (nat list \<times> nat list) option" where
  "frac_part r =
     (case r of
        [] \<Rightarrow> Some ([], r)
      | c # r' \<Rightarrow>
          if c = of_char CHR ''.'' then
            (if takeWhile is_digit r' = [] then None
             else Some (c # takeWhile is_digit r', dropWhile is_digit r'))
          else Some ([], r))"

definition exp_sign :: "nat list \<Rightarrow> nat list \<times> nat list" where
  "exp_sign r =
     (case r of
        [] \<Rightarrow> ([], r)
      | s # r' \<Rightarrow>
          if s = of_char CHR ''+'' \<or> s = of_char CHR ''-'' then ([s], r') else ([], r))"

definition exp_part :: "nat list \<Rightarrow> (nat list \<times> nat list) option" where
  "exp_part r =
     (case r of
        [] \<Rightarrow> Some ([], r)
      | c # r' \<Rightarrow>
          if c = of_char CHR ''e'' \<or> c = of_char CHR ''E'' then
            (case exp_sign r' of
               (sg, r'') \<Rightarrow>
                 if takeWhile is_digit r'' = [] then None
                 else Some (c # sg @ takeWhile is_digit r'', dropWhile is_digit r''))
          else Some ([], r))"

definition lex_number :: "nat list \<Rightarrow> (nat list \<times> nat list) option" where
  "lex_number cs =
     (case (case cs of
              [] \<Rightarrow> ([], cs)
            | c # r \<Rightarrow> if c = of_char CHR ''-'' then ([c], r) else ([], cs)) of
        (sg, r0) \<Rightarrow>
          (case int_part r0 of
             None \<Rightarrow> None
           | Some (ip, r1) \<Rightarrow>
               (case frac_part r1 of
                  None \<Rightarrow> None
                | Some (fp, r2) \<Rightarrow>
                    (case exp_part r2 of
                       None \<Rightarrow> None
                     | Some (ep, r3) \<Rightarrow> Some (sg @ ip @ fp @ ep, r3)))))"

lemma int_part_shorter: "int_part r = Some (ip, r1) \<Longrightarrow> length r1 < length r"
  by (auto simp: int_part_def is_digit_def split: list.splits if_splits
      intro: le_less_trans [OF length_dropWhile_le])

lemma frac_part_shorter: "frac_part r = Some (fp, r1) \<Longrightarrow> length r1 \<le> length r"
  by (auto simp: frac_part_def split: list.splits if_splits
      intro: le_trans [OF length_dropWhile_le])

lemma exp_sign_shorter: "exp_sign r = (sg, r1) \<Longrightarrow> length r1 \<le> length r"
  by (auto simp: exp_sign_def split: list.splits if_splits)

lemma exp_part_shorter: "exp_part r = Some (ep, r1) \<Longrightarrow> length r1 \<le> length r"
  by (auto simp: exp_part_def split: list.splits if_splits prod.splits
      dest!: exp_sign_shorter intro: le_trans [OF length_dropWhile_le])

lemma lex_number_shorter: "lex_number cs = Some (n, rest) \<Longrightarrow> length rest < length cs"
  by (auto simp: lex_number_def split: list.splits if_splits prod.splits option.splits
      dest!: int_part_shorter frac_part_shorter exp_part_shorter)

lemma lex_string_measure:
  "lex_string cs = Some x \<Longrightarrow> (s, rest) = x \<Longrightarrow> (rest, c # cs) \<in> measure length"
  using lex_string_shorter [of cs s rest] by simp

lemma lex_number_measure:
  "lex_number (c # cs) = Some x \<Longrightarrow> (n, rest) = x \<Longrightarrow> (rest, c # cs) \<in> measure length"
  using lex_number_shorter [of "c # cs" n rest] by simp

function tokenize :: "nat list \<Rightarrow> token list option" where
  "tokenize [] = Some []"
| "tokenize (c # cs) =
     (if is_json_ws c then tokenize cs
      else if c = of_char CHR ''{'' then map_option (Cons LBrace) (tokenize cs)
      else if c = of_char CHR ''}'' then map_option (Cons RBrace) (tokenize cs)
      else if c = of_char CHR ''['' then map_option (Cons LBracket) (tokenize cs)
      else if c = of_char CHR '']'' then map_option (Cons RBracket) (tokenize cs)
      else if c = of_char CHR '':'' then map_option (Cons Colon) (tokenize cs)
      else if c = of_char CHR '','' then map_option (Cons Comma) (tokenize cs)
      else if c = 0x22 then
        (case lex_string cs of
           None \<Rightarrow> None
         | Some (s, rest) \<Rightarrow> map_option (Cons (TString s)) (tokenize rest))
      else if c = of_char CHR ''-'' \<or> is_digit c then
        (case lex_number (c # cs) of
           None \<Rightarrow> None
         | Some (n, rest) \<Rightarrow> map_option (Cons (TNumber n)) (tokenize rest))
      else if c = of_char CHR ''t'' \<and> take 3 cs = units ''rue'' then
        map_option (Cons TTrue) (tokenize (drop 3 cs))
      else if c = of_char CHR ''f'' \<and> take 4 cs = units ''alse'' then
        map_option (Cons TFalse) (tokenize (drop 4 cs))
      else if c = of_char CHR ''n'' \<and> take 3 cs = units ''ull'' then
        map_option (Cons TNull) (tokenize (drop 3 cs))
      else None)"
  by pat_completeness auto
termination
  apply (relation "measure length")
  apply (simp_all only: lex_string_measure lex_number_measure wf_measure)
  apply (simp_all only: in_measure length_drop list.size)
  done

text \<open>
  The recogniser: a stack of the containers that are open, and what may come next.
  \<open>InObject ms (Some k)\<close> is an object whose key \<open>k\<close> waits for its value. The flag of
  \<open>ExpectValue\<close> and \<open>ExpectKey\<close> says that the container was just opened, so its
  closing bracket may come instead.
\<close>

datatype frame =
    InArray "json list"
  | InObject "(nat list \<times> json) list" "nat list option"

datatype pstate =
    ExpectValue "frame list" bool
  | ExpectKey "frame list" bool
  | ExpectColon "frame list"
  | AfterValue "frame list"
  | Done json

fun obj_put :: "(nat list \<times> json) list \<Rightarrow> nat list \<Rightarrow> json \<Rightarrow> (nat list \<times> json) list" where
  "obj_put [] k v = [(k, v)]"
| "obj_put ((k', v') # ms) k v = (if k' = k then (k, v) # ms else (k', v') # obj_put ms k v)"

text \<open>A finished value goes to the container on top of the stack.\<close>

fun emit :: "json \<Rightarrow> frame list \<Rightarrow> pstate option" where
  "emit v [] = Some (Done v)"
| "emit v (InArray xs # st) = Some (AfterValue (InArray (xs @ [v]) # st))"
| "emit v (InObject ms (Some k) # st) = Some (AfterValue (InObject (obj_put ms k v) None # st))"
| "emit v (InObject ms None # st) = None"

fun close_array :: "frame list \<Rightarrow> pstate option" where
  "close_array (InArray xs # st) = emit (JArray xs) st"
| "close_array _ = None"

fun close_object :: "frame list \<Rightarrow> pstate option" where
  "close_object (InObject ms None # st) = emit (JObject ms) st"
| "close_object _ = None"

fun scalar :: "token \<Rightarrow> json option" where
  "scalar (TString s) = Some (JString s)"
| "scalar (TNumber n) = Some (JNumber n)"
| "scalar TTrue = Some (JBool True)"
| "scalar TFalse = Some (JBool False)"
| "scalar TNull = Some JNull"
| "scalar _ = None"

definition parse_step :: "pstate \<Rightarrow> token \<Rightarrow> pstate option" where
  "parse_step p t =
     (case p of
        ExpectValue st just_opened \<Rightarrow>
          (if t = LBracket then Some (ExpectValue (InArray [] # st) True)
           else if t = LBrace then Some (ExpectKey (InObject [] None # st) True)
           else if t = RBracket then (if just_opened then close_array st else None)
           else (case scalar t of
                   None \<Rightarrow> None
                 | Some v \<Rightarrow> emit v st))
      | ExpectKey st just_opened \<Rightarrow>
          (case t of
             TString k \<Rightarrow>
               (case st of
                  InObject ms waiting # st' \<Rightarrow> Some (ExpectColon (InObject ms (Some k) # st'))
                | _ \<Rightarrow> None)
           | RBrace \<Rightarrow> (if just_opened then close_object st else None)
           | _ \<Rightarrow> None)
      | ExpectColon st \<Rightarrow> (if t = Colon then Some (ExpectValue st False) else None)
      | AfterValue st \<Rightarrow>
          (if t = Comma then
             (case st of
                InArray xs # st' \<Rightarrow> Some (ExpectValue st False)
              | InObject ms waiting # st' \<Rightarrow> Some (ExpectKey st False)
              | [] \<Rightarrow> None)
           else if t = RBracket then close_array st
           else if t = RBrace then close_object st
           else None)
      | Done v \<Rightarrow> None)"

fun parse_tokens :: "pstate \<Rightarrow> token list \<Rightarrow> json option" where
  "parse_tokens p [] = (case p of Done v \<Rightarrow> Some v | _ \<Rightarrow> None)"
| "parse_tokens p (t # ts) =
     (case parse_step p t of
        None \<Rightarrow> None
      | Some p' \<Rightarrow> parse_tokens p' ts)"

text \<open>\<open>JSON.parse\<close>: \<open>None\<close> is its \<open>SyntaxError\<close>.\<close>

definition JSON_parse :: "nat list \<Rightarrow> json option" where
  "JSON_parse s =
     (case tokenize s of
        None \<Rightarrow> None
      | Some ts \<Rightarrow> parse_tokens (ExpectValue [] False) ts)"

subsection \<open>\<open>analyzeParkingSign\<close>\<close>

text \<open>
  \<open>String.prototype.trim\<close> removes white space and line terminators at both ends:
  tab, line feed, vertical tab, form feed, carriage return, space, U+00A0, U+1680,
  U+2000 to U+200A, U+2028, U+2029, U+202F, U+205F, U+3000 and U+FEFF.
\<close>

definition is_js_space :: "nat \<Rightarrow> bool" where
  "is_js_space c =
     (c \<in> {0x9, 0xA, 0xB, 0xC, 0xD, 0x20, 0xA0, 0x1680, 0x2028, 0x2029, 0x202F, 0x205F,
           0x3000, 0xFEFF}
      \<or> (0x2000 \<le> c \<and> c \<le> 0x200A))"

definition trim :: "nat list \<Rightarrow> nat list" where
  "trim s = rev (dropWhile is_js_space (rev (dropWhile is_js_space s)))"

text \<open>
  The body of the \<open>try\<close> block after the awaited call: \<open>response.text.trim()\<close> raises a
  \<open>TypeError\<close> when \<open>text\<close> is \<open>undefined\<close>; \<open>jsonStr || "{}"\<close> replaces the empty
  string, the only falsy one; what \<open>JSON.parse\<close> returns is returned.
\<close>

definition analyze_try :: "response \<Rightarrow> thrown + json" where
  "analyze_try response =
     (case response_text response of
        None \<Rightarrow> Inl JsTypeError
      | Some t \<Rightarrow>
          (let jsonStr = trim t in
           case JSON_parse (if jsonStr = [] then units ''{}'' else jsonStr) of
             None \<Rightarrow> Inl JsSyntaxError
           | Some v \<Rightarrow> Inr v))"

text \<open>
  \<open>analyzeParkingSign\<close>, with \<open>instruction\<close> the evaluated system instruction and
  \<open>reply\<close> how the awaited call settles, as for \<open>editImage\<close>: the \<open>catch\<close> block logs
  whatever the \<open>try\<close> block threw and throws a new fixed \<open>Error\<close>.
\<close>

definition analyzeParkingSign ::
  "nat list \<Rightarrow> string \<Rightarrow> thrown + response \<Rightarrow> effect list \<times> (thrown + json)" where
  "analyzeParkingSign instruction base64Image reply =
     (let req = analyze_request instruction base64Image;
          attempt = (case reply of
                       Inl e \<Rightarrow> Inl e
                     | Inr response \<Rightarrow> analyze_try response)
      in case attempt of
           Inr analysis \<Rightarrow> ([GenerateContent req], Inr analysis)
         | Inl e \<Rightarrow>
             ([GenerateContent req, ConsoleError ''Analysis error:'' e],
              Inl (JsError ''Failed to analyze sign'')))"

text \<open>
  The fields that \<open>ParkingAnalysis\<close> (types.ts) and the response schema require.
\<close>

fun has_field :: "json \<Rightarrow> string \<Rightarrow> bool" where
  "has_field (JObject ms) k = (units k \<in> fst ` set ms)"
| "has_field _ k = False"

definition has_required_fields :: "json \<Rightarrow> bool" where
  "has_required_fields v =
     (has_field v ''status'' \<and> has_field v ''summary'' \<and> has_field v ''details'')"

section \<open>The component \<open>ScannerView\<close> (src/unnamed/part_001)\<close>

subsection \<open>State\<close>

text \<open>
  The component's state: the six \<open>useState\<close> variables, the refs \<open>videoRef\<close> and
  \<open>streamRef\<close>, and what surrounds it: whether \<open>navigator.mediaDevices.getUserMedia\<close>
  exists, whether React has unmounted the component, the tracks that are capturing
  (\<open>live\<close>), the effects so far (\<open>trace\<close>) and what the component waits for
  (\<open>pending\<close>). \<open>result\<close> holds whatever \<open>analyzeParkingSign\<close> resolved to.

  An \<open>async\<close> function runs up to its first \<open>await\<close> when it is called and is resumed
  when the awaited promise settles; other handlers can run in between, and so can a
  second call of the same function. Each such piece is one function here, and a
  suspended piece is a \<open>task\<close>. A handler reads the state variables of the render
  that created it: \<open>AwaitRead\<close> and \<open>AwaitAnalysis\<close> keep the \<open>cameraNotFound\<close> that
  \<open>processImage\<close> closed over, which its \<open>catch\<close> block reads. \<open>AwaitPick\<close> is an open
  file dialog.
\<close>

record video_element =
  srcObject :: "stream option"

datatype task =
    AwaitPreferred
  | AwaitFallback
  | AwaitAnalysis bool
  | AwaitPick
  | AwaitRead bool

record scanner =
  loading :: bool
  result :: "json option"
  error :: "string option"
  isCameraReady :: bool
  capturedImage :: "string option"
  cameraNotFound :: bool
  videoRef :: "video_element option"
  streamRef :: "stream option"
  mediaDevices :: bool
  unmounted :: bool
  live :: "nat set"
  trace :: "effect list"
  pending :: "task list"

definition preferred :: constraints where
  "preferred = \<lparr>video = Facing ''environment'' 1280 720, audio = False\<rparr>"

definition fallback :: constraints where
  "fallback = \<lparr>video = AnyVideo, audio = False\<rparr>"

subsection \<open>\<open>stopCamera\<close> and \<open>startCamera\<close>\<close>

definition stopCamera :: "scanner \<Rightarrow> scanner" where
  "stopCamera s =
     (case streamRef s of
        Some st \<Rightarrow>
          s\<lparr>live := live s - set (getTracks st),
            trace := trace s @ map TrackStop (getTracks st),
            streamRef := None\<rparr>
      | None \<Rightarrow> s)
     \<lparr>isCameraReady := False\<rparr>"

text \<open>
  \<open>startCamera\<close> up to its first \<open>await\<close>: the two resets, the check for the browser's
  support, \<open>stopCamera\<close>, and the call of \<open>getUserMedia\<close> with the preferred constraints.
\<close>

definition startCamera :: "scanner \<Rightarrow> scanner" where
  "startCamera s =
     (let s1 = s\<lparr>cameraNotFound := False, error := None\<rparr> in
      if \<not> mediaDevices s1 then
        s1\<lparr>error := Some ''Your browser does not support camera access.'',
           cameraNotFound := True\<rparr>
      else
        (let s2 = stopCamera s1 in
         s2\<lparr>trace := trace s2 @ [GetUserMedia preferred],
            pending := pending s2 @ [AwaitPreferred]\<rparr>))"

text \<open>
  A stream that \<open>getUserMedia\<close> resolved to is capturing. The source keeps it only
  \<open>if (videoRef.current)\<close>.
\<close>

definition attach :: "stream \<Rightarrow> scanner \<Rightarrow> scanner" where
  "attach stream s =
     (let s1 = s\<lparr>live := live s \<union> set (getTracks stream)\<rparr> in
      case videoRef s1 of
        Some v \<Rightarrow>
          s1\<lparr>videoRef := Some (v\<lparr>srcObject := Some stream\<rparr>),
             streamRef := Some stream,
             isCameraReady := True,
             error := None\<rparr>
      | None \<Rightarrow> s1)"

text \<open>The outer \<open>catch\<close> block of \<open>startCamera\<close>.\<close>

definition camera_message :: "thrown \<Rightarrow> string" where
  "camera_message err =
     (if name_of err = ''NotFoundError'' \<or> name_of err = ''DevicesNotFoundError'' then
        ''No camera found on this device.''
      else if name_of err = ''NotAllowedError'' \<or> name_of err = ''PermissionDeniedError'' then
        ''Camera permission denied. Please enable it in your settings.''
      else ''Unable to access camera. Please use the gallery instead.'')"

definition camera_failed :: "thrown \<Rightarrow> scanner \<Rightarrow> scanner" where
  "camera_failed err s =
     s\<lparr>trace := trace s @ [ConsoleError ''Camera access error:'' err],
       cameraNotFound := True,
       error := Some (camera_message err)\<rparr>"

text \<open>
  \<open>startCamera\<close> resumed when the call with the preferred constraints settles: a
  rejection is logged and the fallback call is made and awaited.
\<close>

definition preferred_settled :: "thrown + stream \<Rightarrow> scanner \<Rightarrow> scanner" where
  "preferred_settled outcome s =
     (let s1 = s\<lparr>pending := remove1 AwaitPreferred (pending s)\<rparr> in
      case outcome of
        Inr stream \<Rightarrow> attach stream s1
      | Inl e \<Rightarrow>
          s1\<lparr>trace := trace s1 @
                 [ConsoleWarn ''Preferred camera constraints failed, falling back to simple video constraint.'' e,
                  GetUserMedia fallback],
             pending := pending s1 @ [AwaitFallback]\<rparr>)"

text \<open>
  \<open>startCamera\<close> resumed when the fallback call settles: a rejection is logged,
  thrown again and caught by the outer \<open>catch\<close>.
\<close>

definition fallback_settled :: "thrown + stream \<Rightarrow> scanner \<Rightarrow> scanner" where
  "fallback_settled outcome s =
     (let s1 = s\<lparr>pending := remove1 AwaitFallback (pending s)\<rparr> in
      case outcome of
        Inr stream \<Rightarrow> attach stream s1
      | Inl e2 \<Rightarrow>
          camera_failed e2 (s1\<lparr>trace := trace s1 @ [ConsoleError ''All camera constraints failed:'' e2]\<rparr>))"

subsection \<open>\<open>processImage\<close>, \<open>handleCapture\<close>, \<open>handleFileUpload\<close>, \<open>handleReset\<close>\<close>

text \<open>
  \<open>processImage\<close> up to its \<open>await\<close>: the four state updates, \<open>stopCamera\<close>, the call of
  \<open>analyzeParkingSign\<close>. \<open>closed_over\<close> is the \<open>cameraNotFound\<close> of the render that
  created this \<open>processImage\<close>; \<open>base64\<close> is \<open>None\<close> for \<open>null\<close>.
\<close>

definition processImage :: "bool \<Rightarrow> string option \<Rightarrow> scanner \<Rightarrow> scanner" where
  "processImage closed_over base64 s =
     (let s1 = s\<lparr>capturedImage := base64, loading := True, error := None, result := None\<rparr>;
          s2 = stopCamera s1
      in s2\<lparr>trace := trace s2 @ [AnalyzeParkingSign base64],
            pending := pending s2 @ [AwaitAnalysis closed_over]\<rparr>)"

text \<open>
  \<open>processImage\<close> resumed when \<open>analyzeParkingSign\<close> settles. In the \<open>catch\<close> block
  \<open>startCamera()\<close> is called and not awaited, so it runs up to its first \<open>await\<close>; then
  the \<open>finally\<close> block runs.
\<close>

definition analysis_settled :: "bool \<Rightarrow> thrown + json \<Rightarrow> scanner \<Rightarrow> scanner" where
  "analysis_settled closed_over outcome s =
     (let s1 = s\<lparr>pending := remove1 (AwaitAnalysis closed_over) (pending s)\<rparr>;
          s2 = (case outcome of
                  Inr analysis \<Rightarrow> s1\<lparr>result := Some analysis\<rparr>
                | Inl err \<Rightarrow>
                    (let s3 = s1\<lparr>error := Some ''AI could not interpret the sign. Ensure it's well-lit and clearly visible.''\<rparr>
                     in if \<not> closed_over then startCamera s3 else s3))
      in s2\<lparr>loading := False\<rparr>)"

text \<open>
  \<open>handleCapture\<close>, a click handler of the current render: \<open>frame\<close> is what
  \<open>canvas.toDataURL('image/jpeg', 0.8)\<close> returns for the drawn frame, \<open>None\<close> when the
  canvas gives no 2d context. The canvas is always rendered, so \<open>canvasRef.current\<close> is
  not null while the component is mounted.
\<close>

definition handleCapture :: "string option \<Rightarrow> scanner \<Rightarrow> scanner" where
  "handleCapture frame s =
     (case videoRef s of
        None \<Rightarrow> s
      | Some v \<Rightarrow>
          (case frame of
             None \<Rightarrow> s
           | Some base64 \<Rightarrow> processImage (cameraNotFound s) (Some base64) s))"

text \<open>
  The gallery buttons call \<open>fileInputRef.current?.click()\<close>, which opens the file
  dialog. \<open>handleFileUpload\<close> is the \<open>onChange\<close> handler of the file input, which is
  always rendered: for a chosen file it starts the read, and \<open>onloadend\<close>, created in
  that render, calls \<open>processImage(reader.result)\<close> when the read has ended
  (\<open>reader.result\<close> is \<open>null\<close> after a failed read).
\<close>

definition open_file_dialog :: "scanner \<Rightarrow> scanner" where
  "open_file_dialog s = s\<lparr>pending := pending s @ [AwaitPick]\<rparr>"

definition handleFileUpload :: "scanner \<Rightarrow> scanner" where
  "handleFileUpload s =
     s\<lparr>pending := remove1 AwaitPick (pending s) @ [AwaitRead (cameraNotFound s)]\<rparr>"

definition onloadend :: "bool \<Rightarrow> string option \<Rightarrow> scanner \<Rightarrow> scanner" where
  "onloadend closed_over read s =
     processImage closed_over read (s\<lparr>pending := remove1 (AwaitRead closed_over) (pending s)\<rparr>)"

definition handleReset :: "scanner \<Rightarrow> scanner" where
  "handleReset s =
     (let s1 = s\<lparr>capturedImage := None, result := None, error := None\<rparr> in
      if \<not> cameraNotFound s then startCamera s1 else s1)"

subsection \<open>What is rendered\<close>

text \<open>
  JavaScript's truthiness of the values the JSX tests. A number is falsy when it is
  zero as a double. A JSON number literal reads as the double nearest to its exact
  value \<open>m * 10^e\<close>, ties to even, so it reads as zero exactly when that value is at
  most \<open>2^-1075\<close>, half the least positive double.
\<close>

definition digits_value :: "nat list \<Rightarrow> nat" where
  "digits_value ds = foldl (\<lambda>a d. 10 * a + (d - 48)) 0 ds"

definition literal_exponent :: "nat list \<Rightarrow> int" where
  "literal_exponent r =
     (case r of
        [] \<Rightarrow> 0
      | c # ds \<Rightarrow>
          (case ds of
             [] \<Rightarrow> 0
           | sg # ds' \<Rightarrow>
               if sg = of_char CHR ''-'' then - int (digits_value ds')
               else if sg = of_char CHR ''+'' then int (digits_value ds')
               else int (digits_value ds)))"

definition rounds_to_zero :: "nat list \<Rightarrow> bool" where
  "rounds_to_zero n =
     (let body = (case n of
                    [] \<Rightarrow> []
                  | c # r \<Rightarrow> if c = of_char CHR ''-'' then r else n);
          whole = takeWhile is_digit body;
          r1 = dropWhile is_digit body;
          fraction = (case r1 of
                        [] \<Rightarrow> []
                      | c # r \<Rightarrow> if c = of_char CHR ''.'' then takeWhile is_digit r else []);
          r2 = (case r1 of
                  [] \<Rightarrow> []
                | c # r \<Rightarrow> if c = of_char CHR ''.'' then dropWhile is_digit r else r1);
          m = digits_value (whole @ fraction);
          e = literal_exponent r2 - int (length fraction)
      in m = 0 \<or> (e < 0 \<and> m * 2 ^ 1075 \<le> 10 ^ nat (- e)))"

fun json_truthy :: "json \<Rightarrow> bool" where
  "json_truthy JNull = False"
| "json_truthy (JBool b) = b"
| "json_truthy (JNumber n) = (\<not> rounds_to_zero n)"
| "json_truthy (JString s) = (s \<noteq> [])"
| "json_truthy (JArray xs) = True"
| "json_truthy (JObject ms) = True"

fun truthy_result :: "json option \<Rightarrow> bool" where
  "truthy_result None = False"
| "truthy_result (Some v) = json_truthy v"

fun truthy_string :: "string option \<Rightarrow> bool" where
  "truthy_string None = False"
| "truthy_string (Some s) = (s \<noteq> [])"

text \<open>
  The block under \<open>{result && ...}\<close> evaluates \<open>result.details.map(...)\<close> and puts
  \<open>result.summary\<close> and each element of \<open>details\<close> into the page. That throws unless
  \<open>details\<close> is an array, and unless each of these values is something React can
  render: anything but an object, inside arrays too.
\<close>

fun renderable :: "json \<Rightarrow> bool" where
  "renderable (JObject ms) = False"
| "renderable (JArray xs) = list_all renderable xs"
| "renderable v = True"

definition result_renders :: "json \<Rightarrow> bool" where
  "result_renders v =
     (case v of
        JObject ms \<Rightarrow>
          (case map_of ms (units ''details'') of
             Some (JArray ds) \<Rightarrow>
               list_all renderable ds
               \<and> (case map_of ms (units ''summary'') of
                      None \<Rightarrow> True
                    | Some sv \<Rightarrow> renderable sv)
           | _ \<Rightarrow> False)
      | _ \<Rightarrow> False)"

definition render_throws :: "scanner \<Rightarrow> bool" where
  "render_throws s =
     (case result s of
        None \<Rightarrow> False
      | Some v \<Rightarrow> json_truthy v \<and> \<not> result_renders v)"

text \<open>
  The block with the gallery button and the capture button is on the page when the
  component is mounted and \<open>!result && !error && !loading && !cameraNotFound\<close>.
\<close>

definition capture_panel :: "scanner \<Rightarrow> bool" where
  "capture_panel s =
     (\<not> unmounted s \<and> \<not> truthy_result (result s) \<and> \<not> truthy_string (error s)
      \<and> \<not> loading s \<and> \<not> cameraNotFound s)"

text \<open>The capture button can be clicked: it is rendered and not \<open>disabled\<close>.\<close>

definition capture_enabled :: "scanner \<Rightarrow> bool" where
  "capture_enabled s = (capture_panel s \<and> isCameraReady s)"

text \<open>
  A button that opens the file dialog is on the page: in the capture panel, in the
  "Camera Unavailable" block, or in the error block.
\<close>

definition upload_offered :: "scanner \<Rightarrow> bool" where
  "upload_offered s =
     (\<not> unmounted s
      \<and> (capture_panel s
         \<or> (cameraNotFound s \<and> \<not> truthy_string (capturedImage s))
         \<or> truthy_string (error s)))"

text \<open>
  A button bound to \<open>handleReset\<close> is on the page: "Scan Another Sign" under a result,
  "Retry Camera" in the error block.
\<close>

definition reset_offered :: "scanner \<Rightarrow> bool" where
  "reset_offered s =
     (\<not> unmounted s
      \<and> (truthy_result (result s) \<or> (truthy_string (error s) \<and> \<not> cameraNotFound s)))"

text \<open>
  After a handler has run React renders again. When the render throws, React removes
  the whole tree, there being no error boundary: the cleanup of the effect runs
  \<open>stopCamera\<close>, the refs of the elements become null and nothing is on the page any
  more. (The state variables of an unmounted component are gone; the pieces still
  write them here, and nothing reads them.) Otherwise the \<open>video\<close> element, and with it
  \<open>videoRef.current\<close>, exists exactly when \<open>cameraNotFound\<close> is false.
\<close>

definition unmount :: "scanner \<Rightarrow> scanner" where
  "unmount s = (stopCamera s)\<lparr>videoRef := None, unmounted := True\<rparr>"

definition commit :: "scanner \<Rightarrow> scanner" where
  "commit s =
     (if unmounted s then s
      else if render_throws s then unmount s
      else
        s\<lparr>videoRef :=
            (if cameraNotFound s then None
             else (case videoRef s of
                     None \<Rightarrow> Some \<lparr>srcObject = None\<rparr>
                   | Some v \<Rightarrow> Some v))\<rparr>)"

subsection \<open>The component as a transition system\<close>

text \<open>
  What can happen to one mounted instance of the component: a click on a button that
  is on the page and enabled; the file dialog, opened by a gallery button, closing
  with a file or without one; the end of a read; and the settling of a promise the
  component awaits (of several reads or analyses, the oldest). Anything else leaves the
  state as it is. \<open>mounted\<close> is the state after the first render and its effect,
  which calls \<open>startCamera\<close>.
\<close>

datatype scanner_event =
    ClickCapture "string option"
  | ClickUpload
  | FileChosen
  | DialogCancelled
  | FileRead "string option"
  | ClickReset
  | PreferredSettled "thrown + stream"
  | FallbackSettled "thrown + stream"
  | AnalysisSettled "thrown + json"

fun oldest_analysis :: "task list \<Rightarrow> bool option" where
  "oldest_analysis [] = None"
| "oldest_analysis (AwaitAnalysis b # ts) = Some b"
| "oldest_analysis (t # ts) = oldest_analysis ts"

fun oldest_read :: "task list \<Rightarrow> bool option" where
  "oldest_read [] = None"
| "oldest_read (AwaitRead b # ts) = Some b"
| "oldest_read (t # ts) = oldest_read ts"

fun scanner_step :: "scanner_event \<Rightarrow> scanner \<Rightarrow> scanner" where
  "scanner_step (ClickCapture frame) s =
     (if capture_enabled s then commit (handleCapture frame s) else s)"
| "scanner_step ClickUpload s =
     (if upload_offered s then open_file_dialog s else s)"
| "scanner_step FileChosen s =
     (if AwaitPick \<in> set (pending s) \<and> \<not> unmounted s then handleFileUpload s else s)"
| "scanner_step DialogCancelled s =
     (if AwaitPick \<in> set (pending s) then s\<lparr>pending := remove1 AwaitPick (pending s)\<rparr> else s)"
| "scanner_step (FileRead read) s =
     (case oldest_read (pending s) of
        None \<Rightarrow> s
      | Some closed_over \<Rightarrow> commit (onloadend closed_over read s))"
| "scanner_step ClickReset s =
     (if reset_offered s then commit (handleReset s) else s)"
| "scanner_step (PreferredSettled outcome) s =
     (if AwaitPreferred \<in> set (pending s) then commit (preferred_settled outcome s) else s)"
| "scanner_step (FallbackSettled outcome) s =
     (if AwaitFallback \<in> set (pending s) then commit (fallback_settled outcome s) else s)"
| "scanner_step (AnalysisSettled outcome) s =
     (case oldest_analysis (pending s) of
        None \<Rightarrow> s
      | Some closed_over \<Rightarrow> commit (analysis_settled closed_over outcome s))"

fun scanner_run :: "scanner_event list \<Rightarrow> scanner \<Rightarrow> scanner" where
  "scanner_run [] s = s"
| "scanner_run (e # es) s = scanner_run es (scanner_step e s)"

definition first_render :: "bool \<Rightarrow> scanner" where
  "first_render supported =
     \<lparr>loading = False, result = None, error = None, isCameraReady = False,
      capturedImage = None, cameraNotFound = False,
      videoRef = Some \<lparr>srcObject = None\<rparr>, streamRef = None,
      mediaDevices = supported, unmounted = False, live = {}, trace = [], pending = []\<rparr>"

definition mounted :: "bool \<Rightarrow> scanner" where
  "mounted supported = commit (startCamera (first_render supported))"

section \<open>The component \<open>EditView\<close> (src/unnamed/part_003)\<close>

text \<open>
  The five \<open>useState\<close> variables, the calls of \<open>editImage\<close> made so far, the number of
  them not yet settled and the number of file reads not yet ended.
\<close>

record editor =
  originalImage :: "string option"
  editedImage :: "string option"
  prompt :: "nat list"
  loading :: bool
  error :: "string option"
  calls :: "effect list"
  in_flight :: nat
  reading :: nat

text \<open>\<open>handleEdit\<close> up to its \<open>await\<close>.\<close>

definition handleEdit :: "editor \<Rightarrow> editor" where
  "handleEdit s =
     (case originalImage s of
        None \<Rightarrow> s
      | Some original \<Rightarrow>
          if original = [] \<or> trim (prompt s) = [] then s
          else
            s\<lparr>editor.loading := True,
              editor.error := None,
              calls := calls s @ [EditImage original (prompt s)],
              in_flight := Suc (in_flight s)\<rparr>)"

text \<open>\<open>handleEdit\<close> resumed when \<open>editImage\<close> settles.\<close>

definition edit_settled :: "thrown + string \<Rightarrow> editor \<Rightarrow> editor" where
  "edit_settled outcome s =
     (case outcome of
        Inr url \<Rightarrow> s\<lparr>editedImage := Some url\<rparr>
      | Inl err \<Rightarrow> s\<lparr>editor.error := Some ''AI was unable to edit the image. Try a simpler prompt.''\<rparr>)
     \<lparr>editor.loading := False, in_flight := in_flight s - 1\<rparr>"

text \<open>
  \<open>handleFileChange\<close> for a chosen file starts the read; its \<open>onloadend\<close> runs when the
  read has ended, with \<open>reader.result\<close> (\<open>null\<close> after a failed read).
\<close>

definition handleFileChange :: "editor \<Rightarrow> editor" where
  "handleFileChange s = s\<lparr>reading := Suc (reading s)\<rparr>"

definition editor_onloadend :: "string option \<Rightarrow> editor \<Rightarrow> editor" where
  "editor_onloadend read s =
     s\<lparr>originalImage := read, editedImage := None, editor.error := None,
       reading := reading s - 1\<rparr>"

definition reset :: "editor \<Rightarrow> editor" where
  "reset s = s\<lparr>originalImage := None, editedImage := None, prompt := [], editor.error := None\<rparr>"

text \<open>
  The "Apply Changes" button is rendered in the branch for a truthy \<open>originalImage\<close>,
  with \<open>disabled={loading || !prompt.trim()}\<close>.
\<close>

definition apply_enabled :: "editor \<Rightarrow> bool" where
  "apply_enabled s =
     (truthy_string (originalImage s) \<and> \<not> (editor.loading s \<or> trim (prompt s) = []))"

datatype editor_event =
    ChooseFile
  | FileLoaded "string option"
  | SetPrompt "nat list"
  | ClickApply
  | ClickStartOver
  | EditSettled "thrown + string"

text \<open>
  The drop zone with the file input is rendered when \<open>originalImage\<close> is falsy, the
  textarea, the suggestions and both buttons when it is truthy.
\<close>

fun editor_step :: "editor_event \<Rightarrow> editor \<Rightarrow> editor" where
  "editor_step ChooseFile s =
     (if \<not> truthy_string (originalImage s) then handleFileChange s else s)"
| "editor_step (FileLoaded read) s =
     (if 0 < reading s then editor_onloadend read s else s)"
| "editor_step (SetPrompt p) s =
     (if truthy_string (originalImage s) then s\<lparr>prompt := p\<rparr> else s)"
| "editor_step ClickApply s = (if apply_enabled s then handleEdit s else s)"
| "editor_step ClickStartOver s = (if truthy_string (originalImage s) then reset s else s)"
| "editor_step (EditSettled outcome) s = (if 0 < in_flight s then edit_settled outcome s else s)"

fun editor_run :: "editor_event list \<Rightarrow> editor \<Rightarrow> editor" where
  "editor_run [] s = s"
| "editor_run (e # es) s = editor_run es (editor_step e s)"

definition editor_first_render :: editor where
  "editor_first_render =
     \<lparr>originalImage = None, editedImage = None, prompt = [],
      loading = False, error = None, calls = [], in_flight = 0, reading = 0\<rparr>"

section \<open>Notions used to state the properties\<close>

text \<open>
  The claim about the transmitted payload speaks of "the substring after the first
  comma"; \<open>after_first_comma\<close> is that substring as the words say it, to be compared
  with \<open>payload_of\<close>, which is what the source computes.
\<close>

fun after_first_comma :: "string \<Rightarrow> string option" where
  "after_first_comma [] = None"
| "after_first_comma (c # cs) = (if c = CHR '','' then Some cs else after_first_comma cs)"

text \<open>
  \<open>relabel m r\<close> is the response \<open>r\<close> with the \<open>mimeType\<close> of every inline part
  replaced by \<open>m\<close>: two responses that differ in nothing else.
\<close>

definition with_mimeType :: "string option \<Rightarrow> part \<Rightarrow> part" where
  "with_mimeType m p = p\<lparr>inlineData := map_option (\<lambda>b. b\<lparr>mimeType := m\<rparr>) (inlineData p)\<rparr>"

definition relabel :: "string option \<Rightarrow> response \<Rightarrow> response" where
  "relabel m r =
     r\<lparr>candidates :=
         map_option
           (map (\<lambda>cand. cand\<lparr>content :=
                  map_option (\<lambda>c. c\<lparr>parts := map_option (map (with_mimeType m)) (parts c)\<rparr>)
                    (content cand)\<rparr>))
           (candidates r)\<rparr>"

text \<open>Sample responses of the model.\<close>

definition quoted :: "string \<Rightarrow> string" where
  "quoted s = CHR 0x22 # s @ [CHR 0x22]"

definition text_then_image :: response where
  "text_then_image =
     \<lparr>response_text = Some (units ''Done.''),
      candidates = Some
        [\<lparr>content = Some \<lparr>parts = Some
            [\<lparr>inlineData = None, part_text = Some (units ''Done.'')\<rparr>,
             \<lparr>inlineData = Some \<lparr>data = Some ''WFla'', mimeType = Some ''image/jpeg''\<rparr>,
              part_text = None\<rparr>]\<rparr>\<rparr>]\<rparr>"

definition text_only :: response where
  "text_only =
     \<lparr>response_text = Some (units ''I cannot edit this image.''),
      candidates = Some
        [\<lparr>content = Some \<lparr>parts = Some
            [\<lparr>inlineData = None, part_text = Some (units ''I cannot edit '')\<rparr>,
             \<lparr>inlineData = None, part_text = Some (units ''this image.'')\<rparr>]\<rparr>\<rparr>]\<rparr>"

definition status_only :: response where
  "status_only =
     \<lparr>response_text = Some (units (''{'' @ quoted ''status'' @ '':'' @ quoted ''ALLOWED'' @ ''}'')),
      candidates = None\<rparr>"

definition blank_reply :: response where
  "blank_reply = \<lparr>response_text = Some (units ''  ''), candidates = None\<rparr>"

text \<open>The tracks of the stream that \<open>streamRef\<close> holds.\<close>

definition held_tracks :: "scanner \<Rightarrow> nat list" where
  "held_tracks s = (case streamRef s of None \<Rightarrow> [] | Some st \<Rightarrow> getTracks st)"

text \<open>
  Sample runs of the scanner view in a browser with camera access. \<open>capturing\<close>: the
  camera came up with the preferred constraints and the user tapped the capture button.
  \<open>analysis_failed\<close>: the analysis of that capture was then rejected.
\<close>

definition capturing :: scanner where
  "capturing =
     scanner_run
       [PreferredSettled (Inr (MediaStream [0])),
        ClickCapture (Some ''data:image/jpeg;base64,QUJD'')]
       (mounted True)"

definition analysis_failed :: scanner where
  "analysis_failed =
     scanner_step (AnalysisSettled (Inl (JsError ''Failed to analyze sign''))) capturing"

text \<open>
  \<open>upload_during_startup\<close>: while the \<open>getUserMedia\<close> call made on mount is still
  pending, the user picks a photo from the gallery and its analysis starts; then the
  call resolves.
\<close>

definition upload_during_startup :: scanner where
  "upload_during_startup =
     scanner_run
       [ClickUpload, FileChosen, FileRead (Some ''data:image/png;base64,QUJD''),
        PreferredSettled (Inr (MediaStream [0]))]
       (mounted True)"

text \<open>
  \<open>upload_then_denied\<close>: as before the user picks a photo while the call made on
  mount is pending, but now that call and the fallback call are rejected while the
  analysis is awaited. \<open>second_upload\<close>: the user then picks another photo through
  the "Upload Photo" button of the error block. \<open>camera_back\<close>: the first analysis is
  rejected, which restarts the camera, and the camera comes up. \<open>second_capture\<close>: the
  user taps the capture button.
\<close>

definition upload_then_denied :: scanner where
  "upload_then_denied =
     scanner_run
       [ClickUpload, FileChosen, FileRead (Some ''data:image/png;base64,QUJD''),
        PreferredSettled (Inl (Rejected ''NotAllowedError'' ''Permission denied'')),
        FallbackSettled (Inl (Rejected ''NotAllowedError'' ''Permission denied''))]
       (mounted True)"

definition second_upload :: scanner where
  "second_upload =
     scanner_run
       [ClickUpload, FileChosen, FileRead (Some ''data:image/png;base64,REVG'')]
       upload_then_denied"

definition camera_back :: scanner where
  "camera_back =
     scanner_run
       [AnalysisSettled (Inl (JsError ''Failed to analyze sign'')),
        PreferredSettled (Inr (MediaStream [0]))]
       second_upload"

definition second_capture :: scanner where
  "second_capture =
     scanner_step (ClickCapture (Some ''data:image/jpeg;base64,R0hJ'')) camera_back"

text \<open>
  \<open>overlapping_starts\<close>: the user picks a photo while the call made on mount is
  pending; its analysis is rejected, so \<open>startCamera\<close> is called a second time; the
  first call resolves with a stream; both calls of the second invocation are rejected.
\<close>

definition overlapping_starts :: scanner where
  "overlapping_starts =
     scanner_run
       [ClickUpload, FileChosen, FileRead (Some ''data:image/png;base64,QUJD''),
        AnalysisSettled (Inl (JsError ''Failed to analyze sign'')),
        PreferredSettled (Inr (MediaStream [7])),
        PreferredSettled (Inl (Rejected ''OverconstrainedError'' ''facingMode'')),
        FallbackSettled (Inl (Rejected ''NotFoundError'' ''Requested device not found''))]
       (mounted True)"

text \<open>
  The number of \<open>startCamera\<close> invocations that are suspended, and the runs in which
  no two invocations ever overlap.
\<close>

definition camera_tasks :: "scanner \<Rightarrow> nat" where
  "camera_tasks s = count_list (pending s) AwaitPreferred + count_list (pending s) AwaitFallback"

fun no_overlap :: "scanner_event list \<Rightarrow> scanner \<Rightarrow> bool" where
  "no_overlap [] s = (camera_tasks s \<le> 1)"
| "no_overlap (e # es) s = (camera_tasks s \<le> 1 \<and> no_overlap es (scanner_step e s))"

text \<open>
  \<open>denied_once\<close>: the call made on mount was rejected and the fallback call is awaited.
\<close>

definition denied_once :: scanner where
  "denied_once =
     scanner_step (PreferredSettled (Inl (Rejected ''OverconstrainedError'' ''facingMode'')))
       (mounted True)"

text \<open>
  What holds of the camera's fields after every render of a run without overlapping
  invocations: a video element exists only while the camera is not reported
  unavailable and the view is mounted; without \<open>getUserMedia\<close> no stream is held and
  no invocation is suspended; while an invocation is suspended no stream is held and,
  the view being mounted, the camera is not reported unavailable; when it is reported
  unavailable no stream is held. \<open>settled\<close> is the same between a handler's end and
  the render that follows, when the video element may not yet have been removed.
\<close>

definition consistent :: "scanner \<Rightarrow> bool" where
  "consistent s =
     ((videoRef s \<noteq> None \<longrightarrow> \<not> cameraNotFound s \<and> \<not> unmounted s)
      \<and> (\<not> mediaDevices s \<longrightarrow> streamRef s = None \<and> camera_tasks s = 0)
      \<and> (0 < camera_tasks s \<longrightarrow> streamRef s = None \<and> (\<not> unmounted s \<longrightarrow> \<not> cameraNotFound s))
      \<and> (cameraNotFound s \<longrightarrow> streamRef s = None))"

definition settled :: "scanner \<Rightarrow> bool" where
  "settled s =
     ((unmounted s \<longrightarrow> videoRef s = None)
      \<and> (\<not> mediaDevices s \<longrightarrow> streamRef s = None \<and> camera_tasks s = 0)
      \<and> (0 < camera_tasks s \<longrightarrow> streamRef s = None \<and> (\<not> unmounted s \<longrightarrow> \<not> cameraNotFound s))
      \<and> (cameraNotFound s \<longrightarrow> streamRef s = None))"

text \<open>
  \<open>applying\<close>: in the edit view the user chose a photo, typed a prompt and pressed
  "Apply Changes".
\<close>

definition applying :: editor where
  "applying =
     editor_run
       [ChooseFile, FileLoaded (Some ''data:image/png;base64,QUJD''),
        SetPrompt (units ''Make it snowy''), ClickApply]
       editor_first_render"

section \<open>The gateways: properties\<close>

subsection \<open>The scan over the parts\<close>

lemma scan_parts_skip:
  "\<forall>q \<in> set before. inlineData q = None \<Longrightarrow> scan_parts (before @ ps) = scan_parts ps"
  by (induction before) simp_all

lemma scan_parts_none:
  "\<forall>q \<in> set ps. inlineData q = None \<Longrightarrow>
     scan_parts ps = Inl (JsError ''No image data returned from model'')"
  by (induction ps) simp_all

lemma scan_parts_relabel: "scan_parts (map (with_mimeType m) ps) = scan_parts ps"
  by (induction ps) (auto simp: with_mimeType_def split: option.splits)

lemma scan_parts_prefix:
  "scan_parts ps = Inr url \<Longrightarrow> \<exists>d. url = ''data:image/png;base64,'' @ d"
  by (induction ps) (auto split: option.splits)

lemma edit_try_relabel: "edit_try (relabel m r) = edit_try r"
  by (auto simp: edit_try_def relabel_def scan_parts_relabel split: option.splits list.splits)

lemma edit_try_prefix:
  "edit_try r = Inr url \<Longrightarrow> \<exists>d. url = ''data:image/png;base64,'' @ d"
  by (auto simp: edit_try_def split: option.splits list.splits dest: scan_parts_prefix)

text \<open>
  C3. When the parts of the response (those of its first candidate, the one the source
  reads) hold an inline part, \<open>editImage\<close> resolves to the data URL built from the
  first of them in part order, wherever it stands: every part before it has no
  \<open>inlineData\<close>.
\<close>

theorem editImage_first_inline_part:
  assumes "candidates response = Some (cand # others)"
    and "content cand = Some c"
    and "parts c = Some (before @ p # after)"
    and "\<forall>q \<in> set before. inlineData q = None"
    and "inlineData p = Some b"
  shows "editImage base64Image promptText (Inr response) =
           ([GenerateContent (edit_request base64Image promptText)],
            Inr (''data:image/png;base64,'' @ template_string (data b)))"
proof -
  from assms(4,5) have "scan_parts (before @ p # after) =
      Inr (''data:image/png;base64,'' @ template_string (data b))"
    by (simp add: scan_parts_skip)
  with assms(1-3) have "edit_try response =
      Inr (''data:image/png;base64,'' @ template_string (data b))"
    by (simp add: edit_try_def)
  then show ?thesis
    by (simp add: editImage_def)
qed

theorem editImage_first_inline_part_witness:
  "editImage ''data:image/jpeg;base64,QUJD'' (units ''Add retro filter'') (Inr text_then_image) =
     ([GenerateContent (edit_request ''data:image/jpeg;base64,QUJD'' (units ''Add retro filter''))],
      Inr ''data:image/png;base64,WFla'')"
  using editImage_first_inline_part
    [of text_then_image
        "\<lparr>content = Some \<lparr>parts = Some
            [\<lparr>inlineData = None, part_text = Some (units ''Done.'')\<rparr>,
             \<lparr>inlineData = Some \<lparr>data = Some ''WFla'', mimeType = Some ''image/jpeg''\<rparr>,
              part_text = None\<rparr>]\<rparr>\<rparr>"
        "[]"
        "\<lparr>parts = Some
            [\<lparr>inlineData = None, part_text = Some (units ''Done.'')\<rparr>,
             \<lparr>inlineData = Some \<lparr>data = Some ''WFla'', mimeType = Some ''image/jpeg''\<rparr>,
              part_text = None\<rparr>]\<rparr>"
        "[\<lparr>inlineData = None, part_text = Some (units ''Done.'')\<rparr>]"
        "\<lparr>inlineData = Some \<lparr>data = Some ''WFla'', mimeType = Some ''image/jpeg''\<rparr>,
          part_text = None\<rparr>"
        "[]"
        "\<lparr>data = Some ''WFla'', mimeType = Some ''image/jpeg''\<rparr>"
        "''data:image/jpeg;base64,QUJD''" "(units ''Add retro filter'')"]
  by (simp add: text_then_image_def)

text \<open>
  C9. Whenever \<open>editImage\<close> resolves, the string starts with
  \<open>data:image/png;base64,\<close>; and the whole outcome is the same for two responses
  that differ only in the \<open>mimeType\<close> of their inline parts, so the tag of the output
  is not taken from the response.
\<close>

theorem editImage_png_prefix:
  "(snd (editImage base64Image promptText reply) = Inr url \<longrightarrow>
      (\<exists>d. url = ''data:image/png;base64,'' @ d))
   \<and> editImage base64Image promptText (Inr (relabel m response)) =
       editImage base64Image promptText (Inr response)"
proof
  show "snd (editImage base64Image promptText reply) = Inr url \<longrightarrow>
      (\<exists>d. url = ''data:image/png;base64,'' @ d)"
    by (cases reply) (auto simp: editImage_def Let_def split: sum.splits dest: edit_try_prefix)
  show "editImage base64Image promptText (Inr (relabel m response)) =
       editImage base64Image promptText (Inr response)"
    by (simp add: editImage_def edit_try_relabel)
qed

theorem editImage_png_prefix_witness:
  "snd (editImage ''data:image/jpeg;base64,QUJD'' (units ''Make it snowy'') (Inr text_then_image)) =
     Inr ''data:image/png;base64,WFla''
   \<and> (\<exists>d. ''data:image/png;base64,WFla'' = ''data:image/png;base64,'' @ d)
   \<and> editImage ''data:image/jpeg;base64,QUJD'' (units ''Make it snowy'')
         (Inr (relabel (Some ''image/webp'') text_then_image)) =
       editImage ''data:image/jpeg;base64,QUJD'' (units ''Make it snowy'') (Inr text_then_image)"
  using editImage_png_prefix
    [of "''data:image/jpeg;base64,QUJD''" "(units ''Make it snowy'')" "Inr text_then_image"
        "''data:image/png;base64,WFla''" "Some ''image/webp''" text_then_image]
  by (simp add: editImage_def edit_try_def text_then_image_def)

text \<open>
  C2, as the claim states it, fails: for a response with text parts only, the caller of
  \<open>editImage\<close> gets the very rejection it gets for a failure of the transport.
\<close>

theorem no_image_same_as_transport_failure:
  "snd (editImage ''data:image/jpeg;base64,QUJD'' (units ''Make it snowy'') (Inr text_only)) =
   snd (editImage ''data:image/jpeg;base64,QUJD'' (units ''Make it snowy'')
          (Inl (Rejected ''TypeError'' ''Failed to fetch'')))"
  by (simp add: editImage_def edit_try_def text_only_def)

text \<open>
  C2, amended. For a response whose parts hold no inline part, \<open>editImage\<close> rejects
  with the fixed \<open>Error("Failed to edit image")\<close>, the same value as for a rejection
  \<open>e\<close> of the transport; the error "No image data returned from model" is only
  what \<open>console.error\<close> is given, where the transport failure logs \<open>e\<close>.
\<close>

theorem editImage_no_image_rejection:
  assumes "candidates response = Some (cand # others)"
    and "content cand = Some c"
    and "parts c = Some ps"
    and "\<forall>q \<in> set ps. inlineData q = None"
  shows "editImage base64Image promptText (Inr response) =
           ([GenerateContent (edit_request base64Image promptText),
             ConsoleError ''Image editing error:'' (JsError ''No image data returned from model'')],
            Inl (JsError ''Failed to edit image''))
         \<and> editImage base64Image promptText (Inl e) =
           ([GenerateContent (edit_request base64Image promptText),
             ConsoleError ''Image editing error:'' e],
            Inl (JsError ''Failed to edit image''))"
proof -
  from assms have "edit_try response = Inl (JsError ''No image data returned from model'')"
    by (simp add: edit_try_def scan_parts_none)
  then show ?thesis
    by (simp add: editImage_def)
qed

theorem editImage_no_image_rejection_witness:
  "editImage ''data:image/jpeg;base64,QUJD'' (units ''Make it snowy'') (Inr text_only) =
     ([GenerateContent (edit_request ''data:image/jpeg;base64,QUJD'' (units ''Make it snowy'')),
       ConsoleError ''Image editing error:'' (JsError ''No image data returned from model'')],
      Inl (JsError ''Failed to edit image''))
   \<and> editImage ''data:image/jpeg;base64,QUJD'' (units ''Make it snowy'')
         (Inl (Rejected ''TypeError'' ''Failed to fetch'')) =
     ([GenerateContent (edit_request ''data:image/jpeg;base64,QUJD'' (units ''Make it snowy'')),
       ConsoleError ''Image editing error:'' (Rejected ''TypeError'' ''Failed to fetch'')],
      Inl (JsError ''Failed to edit image''))"
  using editImage_no_image_rejection
    [of text_only
        "\<lparr>content = Some \<lparr>parts = Some
            [\<lparr>inlineData = None, part_text = Some (units ''I cannot edit '')\<rparr>,
             \<lparr>inlineData = None, part_text = Some (units ''this image.'')\<rparr>]\<rparr>\<rparr>"
        "[]"
        "\<lparr>parts = Some
            [\<lparr>inlineData = None, part_text = Some (units ''I cannot edit '')\<rparr>,
             \<lparr>inlineData = None, part_text = Some (units ''this image.'')\<rparr>]\<rparr>"
        "[\<lparr>inlineData = None, part_text = Some (units ''I cannot edit '')\<rparr>,
          \<lparr>inlineData = None, part_text = Some (units ''this image.'')\<rparr>]"
        "''data:image/jpeg;base64,QUJD''" "(units ''Make it snowy'')"
        "Rejected ''TypeError'' ''Failed to fetch''"]
  by (simp add: text_only_def)

subsection \<open>The transmitted image\<close>

lemma js_split_unfold:
  "js_split sep s =
     takeWhile (\<lambda>c. c \<noteq> sep) s #
       (case dropWhile (\<lambda>c. c \<noteq> sep) s of [] \<Rightarrow> [] | c # r \<Rightarrow> js_split sep r)"
  by (induction s) (auto split: list.splits)

lemma after_first_comma_dropWhile:
  "after_first_comma s =
     (case dropWhile (\<lambda>c. c \<noteq> CHR '','') s of [] \<Rightarrow> None | c # r \<Rightarrow> Some r)"
  by (induction s) auto

lemma js_index_split_1:
  "js_index (js_split sep s) 1 =
     (case dropWhile (\<lambda>c. c \<noteq> sep) s of
        [] \<Rightarrow> None
      | c # r \<Rightarrow> Some (takeWhile (\<lambda>c. c \<noteq> sep) r))"
proof -
  have "js_index (js_split sep s) 1 =
      js_index (case dropWhile (\<lambda>c. c \<noteq> sep) s of [] \<Rightarrow> [] | c # r \<Rightarrow> js_split sep r) 0"
    by (subst js_split_unfold) simp
  also have "\<dots> =
      (case dropWhile (\<lambda>c. c \<noteq> sep) s of
         [] \<Rightarrow> None
       | c # r \<Rightarrow> Some (takeWhile (\<lambda>c. c \<noteq> sep) r))"
  proof (cases "dropWhile (\<lambda>c. c \<noteq> sep) s")
    case Nil
    show ?thesis unfolding Nil by simp
  next
    case (Cons c r)
    show ?thesis unfolding Cons by (subst js_split_unfold) simp
  qed
  finally show ?thesis .
qed

lemma payload_of_second_segment:
  "payload_of s = map_option (takeWhile (\<lambda>c. c \<noteq> CHR '','')) (after_first_comma s)"
  unfolding payload_of_def js_index_split_1 after_first_comma_dropWhile
  by (cases "dropWhile (\<lambda>c. c \<noteq> CHR '','') s") (simp_all only: list.case option.map)

text \<open>
  C10, as the claim states it, fails on an input with a second comma: \<open>split(',')[1]\<close>
  ends at the second comma, the substring after the first comma does not.
\<close>

theorem payload_not_rest_after_comma:
  "payload_of ''data:image/png;name=a,b;base64,QUJD'' = Some ''b;base64''
   \<and> after_first_comma ''data:image/png;name=a,b;base64,QUJD'' = Some ''b;base64,QUJD''"
  by (simp add: payload_of_def)

text \<open>
  C10, amended. For every input string, both gateways hand \<open>generateContent\<close> a request
  whose first part is the inline image with \<open>mimeType\<close> \<open>image/jpeg\<close> and with the
  payload \<open>split(',')[1]\<close>: the text between the first comma and the second one (or
  the end of the input when there is no second comma), absent when the input has no
  comma. The request is sent whatever the call then answers.
\<close>

theorem transmitted_payload:
  "payload_of base64Image =
     map_option (takeWhile (\<lambda>c. c \<noteq> CHR '','')) (after_first_comma base64Image)
   \<and> (\<exists>rest. fst (analyzeParkingSign instruction base64Image reply) =
         GenerateContent (analyze_request instruction base64Image) # rest)
   \<and> (\<exists>rest. fst (editImage base64Image promptText reply') =
         GenerateContent (edit_request base64Image promptText) # rest)
   \<and> (\<exists>rest. contents (analyze_request instruction base64Image) =
         \<lparr>inlineData = Some \<lparr>data = payload_of base64Image, mimeType = Some ''image/jpeg''\<rparr>,
          part_text = None\<rparr> # rest)
   \<and> (\<exists>rest. contents (edit_request base64Image promptText) =
         \<lparr>inlineData = Some \<lparr>data = payload_of base64Image, mimeType = Some ''image/jpeg''\<rparr>,
          part_text = None\<rparr> # rest)"
proof (intro conjI)
  show "payload_of base64Image =
     map_option (takeWhile (\<lambda>c. c \<noteq> CHR '','')) (after_first_comma base64Image)"
    by (rule payload_of_second_segment)
  show "\<exists>rest. fst (analyzeParkingSign instruction base64Image reply) =
         GenerateContent (analyze_request instruction base64Image) # rest"
    by (simp add: analyzeParkingSign_def Let_def split: sum.splits)
  show "\<exists>rest. fst (editImage base64Image promptText reply') =
         GenerateContent (edit_request base64Image promptText) # rest"
    by (simp add: editImage_def Let_def split: sum.splits)
  show "\<exists>rest. contents (analyze_request instruction base64Image) =
         \<lparr>inlineData = Some \<lparr>data = payload_of base64Image, mimeType = Some ''image/jpeg''\<rparr>,
          part_text = None\<rparr> # rest"
    by (simp add: analyze_request_def image_part_def)
  show "\<exists>rest. contents (edit_request base64Image promptText) =
         \<lparr>inlineData = Some \<lparr>data = payload_of base64Image, mimeType = Some ''image/jpeg''\<rparr>,
          part_text = None\<rparr> # rest"
    by (simp add: edit_request_def image_part_def)
qed

subsection \<open>The parsed analysis\<close>

lemma parse_empty_object: "JSON_parse (units ''{}'') = Some (JObject [])"
  by (simp add: JSON_parse_def is_json_ws_def parse_step_def units_def)

lemma analyze_try_status_only:
  "analyze_try status_only = Inr (JObject [(units ''status'', JString (units ''ALLOWED''))])"
  by (simp add: analyze_try_def status_only_def quoted_def trim_def is_js_space_def
      JSON_parse_def is_json_ws_def is_digit_def parse_step_def units_def)

text \<open>
  C1, as the claim states it, fails: the model answers \<open>{"status":"ALLOWED"}\<close>, and
  \<open>analyzeParkingSign\<close> resolves to that object, which has neither \<open>summary\<close> nor
  \<open>details\<close>.
\<close>

theorem partial_object_returned:
  "snd (analyzeParkingSign (units ''instruction'') ''data:image/jpeg;base64,QUJD'' (Inr status_only)) =
     Inr (JObject [(units ''status'', JString (units ''ALLOWED''))])
   \<and> \<not> has_required_fields (JObject [(units ''status'', JString (units ''ALLOWED''))])"
  by (simp add: analyzeParkingSign_def analyze_try_status_only has_required_fields_def units_def)

text \<open>
  C1, amended. \<open>analyzeParkingSign\<close> rejects, with the fixed
  \<open>Error("Failed to analyze sign")\<close>, exactly when the call rejects, the response has no
  text, or the trimmed text (\<open>{}\<close> in place of an empty one) is not JSON; otherwise it
  resolves to the parsed value as it is, with no check of its fields. An empty or
  blank text resolves to the empty object.
\<close>

theorem analyzeParkingSign_returns_parsed:
  "snd (analyzeParkingSign instruction base64Image (Inl e)) = Inl (JsError ''Failed to analyze sign'')
   \<and> (snd (analyzeParkingSign instruction base64Image (Inr response)) = Inr v \<longleftrightarrow>
        (\<exists>t. response_text response = Some t
           \<and> JSON_parse (if trim t = [] then units ''{}'' else trim t) = Some v))
   \<and> (snd (analyzeParkingSign instruction base64Image (Inr response)) =
          Inl (JsError ''Failed to analyze sign'') \<longleftrightarrow>
        (\<forall>t. response_text response = Some t \<longrightarrow>
           JSON_parse (if trim t = [] then units ''{}'' else trim t) = None))
   \<and> (response_text response = Some t \<and> trim t = [] \<longrightarrow>
        snd (analyzeParkingSign instruction base64Image (Inr response)) = Inr (JObject []))"
  by (auto simp: analyzeParkingSign_def analyze_try_def Let_def parse_empty_object
      split: option.splits)

theorem analyzeParkingSign_returns_parsed_witness:
  "response_text blank_reply = Some (units ''  '') \<and> trim (units ''  '') = []
   \<and> snd (analyzeParkingSign (units ''instruction'') ''data:image/jpeg;base64,QUJD'' (Inr blank_reply)) =
       Inr (JObject [])
   \<and> \<not> has_required_fields (JObject [])"
  using analyzeParkingSign_returns_parsed
    [of "units ''instruction''" "''data:image/jpeg;base64,QUJD''" _ blank_reply _ "units ''  ''"]
  by (simp add: blank_reply_def trim_def is_js_space_def has_required_fields_def units_def)

section \<open>The scanner view: properties\<close>

lemmas scanner_defs =
  mounted_def first_render_def commit_def unmount_def render_throws_def
  startCamera_def stopCamera_def
  preferred_settled_def fallback_settled_def attach_def camera_failed_def camera_message_def
  processImage_def analysis_settled_def handleCapture_def handleReset_def
  open_file_dialog_def handleFileUpload_def onloadend_def
  capture_panel_def capture_enabled_def upload_offered_def reset_offered_def Let_def

lemma stopCamera_fields:
  "streamRef (stopCamera s) = None"
  "isCameraReady (stopCamera s) = False"
  "trace (stopCamera s) = trace s @ map TrackStop (held_tracks s)"
  "live (stopCamera s) = live s - set (held_tracks s)"
  "scanner.loading (stopCamera s) = scanner.loading s"
  "scanner.error (stopCamera s) = scanner.error s"
  "result (stopCamera s) = result s"
  "cameraNotFound (stopCamera s) = cameraNotFound s"
  "capturedImage (stopCamera s) = capturedImage s"
  "videoRef (stopCamera s) = videoRef s"
  "mediaDevices (stopCamera s) = mediaDevices s"
  "unmounted (stopCamera s) = unmounted s"
  "pending (stopCamera s) = pending s"
  by (simp_all add: stopCamera_def held_tracks_def split: option.splits)

lemma capturing_state:
  "capturing =
     \<lparr>scanner.loading = True, result = None, scanner.error = None, isCameraReady = False,
      capturedImage = Some ''data:image/jpeg;base64,QUJD'', cameraNotFound = False,
      videoRef = Some \<lparr>srcObject = Some (MediaStream [0])\<rparr>, streamRef = None,
      mediaDevices = True, unmounted = False, live = {},
      trace = [GetUserMedia preferred, TrackStop 0,
               AnalyzeParkingSign (Some ''data:image/jpeg;base64,QUJD'')],
      pending = [AwaitAnalysis False]\<rparr>"
  by (simp add: capturing_def scanner_defs)

text \<open>
  C8. \<open>stopCamera\<close> twice is \<open>stopCamera\<close> once; called when no stream is held it only
  sets \<open>isCameraReady\<close> to false: the handle, the tracks and the effects stay as they
  were. It has no failing branch.
\<close>

theorem stopCamera_idempotent:
  "stopCamera (stopCamera s) = stopCamera s
   \<and> (streamRef s = None \<longrightarrow> stopCamera s = s\<lparr>isCameraReady := False\<rparr>)"
  by (simp add: stopCamera_def split: option.splits)

theorem stopCamera_idempotent_witness:
  "streamRef (first_render True) = None
   \<and> stopCamera (first_render True) = (first_render True)\<lparr>isCameraReady := False\<rparr>
   \<and> stopCamera (stopCamera (first_render True)) = stopCamera (first_render True)"
  using stopCamera_idempotent [of "first_render True"]
  by (simp add: first_render_def)

text \<open>
  What \<open>processImage\<close> does before it awaits: it stops every track of the stream that
  \<open>streamRef\<close> holds at that moment and clears the handle, then calls
  \<open>analyzeParkingSign\<close>.
\<close>

lemma processImage_releases_first:
  "trace (processImage closed_over base64 s) =
     trace s @ map TrackStop (held_tracks s) @ [AnalyzeParkingSign base64]
   \<and> streamRef (processImage closed_over base64 s) = None
   \<and> live (processImage closed_over base64 s) = live s - set (held_tracks s)
   \<and> scanner.loading (processImage closed_over base64 s)
   \<and> pending (processImage closed_over base64 s) = pending s @ [AwaitAnalysis closed_over]"
  by (simp add: processImage_def Let_def stopCamera_fields held_tracks_def)

text \<open>
  C6. The code at the failing input \<open>upload_during_startup\<close>: the analysis call is
  awaited (\<open>loading\<close> is true, its task is the one pending) while \<open>streamRef\<close> holds a
  stream whose track is capturing. \<open>processImage\<close> released what was held when it
  ran; the \<open>getUserMedia\<close> call made before was not cancelled and its piece of
  \<open>startCamera\<close> stored the stream afterwards.
\<close>

theorem camera_opened_during_round_trip:
  "scanner.loading upload_during_startup
   \<and> pending upload_during_startup = [AwaitAnalysis False]
   \<and> streamRef upload_during_startup = Some (MediaStream [0])
   \<and> 0 \<in> live upload_during_startup"
  by (simp add: upload_during_startup_def scanner_defs)

text \<open>
  What \<open>processImage\<close> leaves in \<open>error\<close> when the analysis is rejected: the fixed
  message only when the camera is not restarted. \<open>startCamera\<close>, called right after
  \<open>setError\<close>, begins with \<open>setError(null)\<close>.
\<close>

lemma analysis_rejected_error:
  "scanner.error (analysis_settled closed_over (Inl err) s) =
     (if closed_over then
        Some ''AI could not interpret the sign. Ensure it's well-lit and clearly visible.''
      else if mediaDevices s then None
      else Some ''Your browser does not support camera access.'')"
  by (simp add: analysis_settled_def startCamera_def Let_def stopCamera_fields)

text \<open>
  C7. The code at the failing input: the camera is ready, the user captures a frame,
  the analysis is rejected. The camera is restarted (the preferred call is pending
  again), but \<open>error\<close> is null and the capture panel is rendered: no message is shown.
\<close>

theorem failure_message_cleared:
  "scanner.error analysis_failed = None
   \<and> \<not> scanner.loading analysis_failed
   \<and> capture_panel analysis_failed
   \<and> pending analysis_failed = [AwaitPreferred]"
  by (simp add: analysis_failed_def capturing_state scanner_defs)

text \<open>
  C5. The code at the failing input. In \<open>upload_then_denied\<close> an analysis is awaited
  and \<open>loading\<close> is true, yet the error block with its "Upload Photo" button is on the
  page; in \<open>second_upload\<close> a second \<open>analyzeParkingSign\<close> call has been made and both
  are in flight. In \<open>camera_back\<close> the first has settled, the second is still in
  flight, \<open>loading\<close> is false and the capture button is enabled; in \<open>second_capture\<close> a
  tap on it has made a third call, again two in flight.
\<close>

theorem second_call_while_in_flight:
  "scanner.loading upload_then_denied
   \<and> pending upload_then_denied = [AwaitAnalysis False]
   \<and> upload_offered upload_then_denied
   \<and> scanner.loading second_upload
   \<and> pending second_upload = [AwaitAnalysis False, AwaitAnalysis True]
   \<and> pending camera_back = [AwaitAnalysis True]
   \<and> \<not> scanner.loading camera_back
   \<and> capture_enabled camera_back
   \<and> pending second_capture = [AwaitAnalysis True, AwaitAnalysis False]
   \<and> filter (\<lambda>e. \<exists>b. e = AnalyzeParkingSign b) (trace second_capture) =
       [AnalyzeParkingSign (Some ''data:image/png;base64,QUJD''),
        AnalyzeParkingSign (Some ''data:image/png;base64,REVG''),
        AnalyzeParkingSign (Some ''data:image/jpeg;base64,R0hJ'')]"
  by (simp add: second_capture_def camera_back_def second_upload_def upload_then_denied_def
      scanner_defs)

subsection \<open>Camera acquisition\<close>

text \<open>
  The fields a piece of \<open>startCamera\<close> or a handler leaves as they were, and the ones
  it sets.
\<close>

lemma count_list_remove1:
  "count_list (remove1 x xs) y = (if x = y then count_list xs y - 1 else count_list xs y)"
  by (induction xs) auto

lemma in_set_count: "x \<in> set xs \<longleftrightarrow> 0 < count_list xs x"
  using count_list_0_iff [of xs x] by auto

lemma camera_tasks_stopCamera [simp]: "camera_tasks (stopCamera s) = camera_tasks s"
  by (simp add: camera_tasks_def stopCamera_fields)

lemma startCamera_fields:
  "streamRef (startCamera s) = (if mediaDevices s then None else streamRef s)"
  "cameraNotFound (startCamera s) = (\<not> mediaDevices s)"
  "unmounted (startCamera s) = unmounted s"
  "mediaDevices (startCamera s) = mediaDevices s"
  "videoRef (startCamera s) = videoRef s"
  "camera_tasks (startCamera s) = (if mediaDevices s then Suc (camera_tasks s) else camera_tasks s)"
  by (simp_all add: startCamera_def Let_def stopCamera_fields camera_tasks_def)

lemma attach_fields:
  "streamRef (attach st s) = (if videoRef s = None then streamRef s else Some st)"
  "cameraNotFound (attach st s) = cameraNotFound s"
  "unmounted (attach st s) = unmounted s"
  "mediaDevices (attach st s) = mediaDevices s"
  "(videoRef (attach st s) = None) = (videoRef s = None)"
  "pending (attach st s) = pending s"
  "camera_tasks (attach st s) = camera_tasks s"
  by (simp_all add: attach_def Let_def camera_tasks_def split: option.splits)

lemma camera_failed_fields:
  "streamRef (camera_failed e s) = streamRef s"
  "cameraNotFound (camera_failed e s) = True"
  "unmounted (camera_failed e s) = unmounted s"
  "mediaDevices (camera_failed e s) = mediaDevices s"
  "videoRef (camera_failed e s) = videoRef s"
  "camera_tasks (camera_failed e s) = camera_tasks s"
  by (simp_all add: camera_failed_def camera_tasks_def)

lemma preferred_rejected_fields:
  "streamRef (preferred_settled (Inl e) s) = streamRef s"
  "cameraNotFound (preferred_settled (Inl e) s) = cameraNotFound s"
  "unmounted (preferred_settled (Inl e) s) = unmounted s"
  "mediaDevices (preferred_settled (Inl e) s) = mediaDevices s"
  "videoRef (preferred_settled (Inl e) s) = videoRef s"
  "AwaitPreferred \<in> set (pending s) \<Longrightarrow>
     camera_tasks (preferred_settled (Inl e) s) = camera_tasks s"
  by (simp_all add: preferred_settled_def Let_def camera_tasks_def count_list_remove1
      in_set_count)

lemma preferred_resolved_fields:
  "streamRef (preferred_settled (Inr st) s) = (if videoRef s = None then streamRef s else Some st)"
  "cameraNotFound (preferred_settled (Inr st) s) = cameraNotFound s"
  "unmounted (preferred_settled (Inr st) s) = unmounted s"
  "mediaDevices (preferred_settled (Inr st) s) = mediaDevices s"
  "(videoRef (preferred_settled (Inr st) s) = None) = (videoRef s = None)"
  by (simp_all add: preferred_settled_def Let_def attach_fields)

lemma preferred_resolved_tasks:
  "AwaitPreferred \<in> set (pending s) \<Longrightarrow>
     Suc (camera_tasks (preferred_settled (Inr st) s)) = camera_tasks s"
  by (simp add: preferred_settled_def Let_def attach_fields camera_tasks_def
      count_list_remove1 in_set_count)

lemma fallback_rejected_fields:
  "streamRef (fallback_settled (Inl e) s) = streamRef s"
  "cameraNotFound (fallback_settled (Inl e) s) = True"
  "unmounted (fallback_settled (Inl e) s) = unmounted s"
  "mediaDevices (fallback_settled (Inl e) s) = mediaDevices s"
  "videoRef (fallback_settled (Inl e) s) = videoRef s"
  by (simp_all add: fallback_settled_def Let_def camera_failed_fields)

lemma fallback_rejected_tasks:
  "AwaitFallback \<in> set (pending s) \<Longrightarrow>
     Suc (camera_tasks (fallback_settled (Inl e) s)) = camera_tasks s"
  by (simp add: fallback_settled_def Let_def camera_tasks_def
      camera_failed_def count_list_remove1 in_set_count)

lemma fallback_resolved_fields:
  "streamRef (fallback_settled (Inr st) s) = (if videoRef s = None then streamRef s else Some st)"
  "cameraNotFound (fallback_settled (Inr st) s) = cameraNotFound s"
  "unmounted (fallback_settled (Inr st) s) = unmounted s"
  "mediaDevices (fallback_settled (Inr st) s) = mediaDevices s"
  "(videoRef (fallback_settled (Inr st) s) = None) = (videoRef s = None)"
  by (simp_all add: fallback_settled_def Let_def attach_fields)

lemma fallback_resolved_tasks:
  "AwaitFallback \<in> set (pending s) \<Longrightarrow>
     Suc (camera_tasks (fallback_settled (Inr st) s)) = camera_tasks s"
  by (simp add: fallback_settled_def Let_def attach_fields camera_tasks_def
      count_list_remove1 in_set_count)

lemma processImage_fields:
  "streamRef (processImage b img s) = None"
  "cameraNotFound (processImage b img s) = cameraNotFound s"
  "unmounted (processImage b img s) = unmounted s"
  "mediaDevices (processImage b img s) = mediaDevices s"
  "videoRef (processImage b img s) = videoRef s"
  "camera_tasks (processImage b img s) = camera_tasks s"
  by (simp_all add: processImage_def Let_def stopCamera_fields camera_tasks_def)

lemma analysis_resolved_fields:
  "streamRef (analysis_settled b (Inr v) s) = streamRef s"
  "cameraNotFound (analysis_settled b (Inr v) s) = cameraNotFound s"
  "unmounted (analysis_settled b (Inr v) s) = unmounted s"
  "mediaDevices (analysis_settled b (Inr v) s) = mediaDevices s"
  "videoRef (analysis_settled b (Inr v) s) = videoRef s"
  "camera_tasks (analysis_settled b (Inr v) s) = camera_tasks s"
  by (simp_all add: analysis_settled_def Let_def camera_tasks_def count_list_remove1)

lemma analysis_rejected_fields:
  "streamRef (analysis_settled b (Inl e) s) = (if \<not> b \<and> mediaDevices s then None else streamRef s)"
  "cameraNotFound (analysis_settled b (Inl e) s) = (if b then cameraNotFound s else \<not> mediaDevices s)"
  "unmounted (analysis_settled b (Inl e) s) = unmounted s"
  "mediaDevices (analysis_settled b (Inl e) s) = mediaDevices s"
  "videoRef (analysis_settled b (Inl e) s) = videoRef s"
  "camera_tasks (analysis_settled b (Inl e) s) =
     (if \<not> b \<and> mediaDevices s then Suc (camera_tasks s) else camera_tasks s)"
  by (simp_all add: analysis_settled_def Let_def startCamera_fields camera_tasks_def
      count_list_remove1 startCamera_def stopCamera_fields)

lemma handleReset_fields:
  "streamRef (handleReset s) = (if \<not> cameraNotFound s \<and> mediaDevices s then None else streamRef s)"
  "cameraNotFound (handleReset s) = (if cameraNotFound s then True else \<not> mediaDevices s)"
  "unmounted (handleReset s) = unmounted s"
  "mediaDevices (handleReset s) = mediaDevices s"
  "videoRef (handleReset s) = videoRef s"
  "camera_tasks (handleReset s) =
     (if \<not> cameraNotFound s \<and> mediaDevices s then Suc (camera_tasks s) else camera_tasks s)"
  by (simp_all add: handleReset_def Let_def startCamera_def stopCamera_fields camera_tasks_def)

lemma handleCapture_fields:
  "streamRef (handleCapture frame s) =
     (if videoRef s = None \<or> frame = None then streamRef s else None)"
  "cameraNotFound (handleCapture frame s) = cameraNotFound s"
  "unmounted (handleCapture frame s) = unmounted s"
  "mediaDevices (handleCapture frame s) = mediaDevices s"
  "videoRef (handleCapture frame s) = videoRef s"
  "camera_tasks (handleCapture frame s) = camera_tasks s"
  by (simp_all add: handleCapture_def processImage_fields split: option.splits)

lemma onloadend_fields:
  "streamRef (onloadend b read s) = None"
  "cameraNotFound (onloadend b read s) = cameraNotFound s"
  "unmounted (onloadend b read s) = unmounted s"
  "mediaDevices (onloadend b read s) = mediaDevices s"
  "videoRef (onloadend b read s) = videoRef s"
  "camera_tasks (onloadend b read s) = camera_tasks s"
  by (simp_all add: onloadend_def processImage_fields)
    (simp add: camera_tasks_def count_list_remove1)

lemma dialog_fields:
  "streamRef (open_file_dialog s) = streamRef s"
  "cameraNotFound (open_file_dialog s) = cameraNotFound s"
  "unmounted (open_file_dialog s) = unmounted s"
  "mediaDevices (open_file_dialog s) = mediaDevices s"
  "videoRef (open_file_dialog s) = videoRef s"
  "camera_tasks (open_file_dialog s) = camera_tasks s"
  "streamRef (handleFileUpload s) = streamRef s"
  "cameraNotFound (handleFileUpload s) = cameraNotFound s"
  "unmounted (handleFileUpload s) = unmounted s"
  "mediaDevices (handleFileUpload s) = mediaDevices s"
  "videoRef (handleFileUpload s) = videoRef s"
  "camera_tasks (handleFileUpload s) = camera_tasks s"
  "streamRef (s\<lparr>pending := remove1 AwaitPick (pending s)\<rparr>) = streamRef s"
  "camera_tasks (s\<lparr>pending := remove1 AwaitPick (pending s)\<rparr>) = camera_tasks s"
  by (simp_all add: open_file_dialog_def handleFileUpload_def camera_tasks_def
      count_list_remove1)

lemma commit_fields:
  "cameraNotFound (commit s) = cameraNotFound s"
  "mediaDevices (commit s) = mediaDevices s"
  "camera_tasks (commit s) = camera_tasks s"
  by (simp_all add: commit_def unmount_def stopCamera_fields camera_tasks_def)

lemma consistent_settled: "consistent s \<Longrightarrow> settled s"
  by (auto simp: consistent_def settled_def)

lemma consistent_commit: "settled s \<Longrightarrow> consistent (commit s)"
proof (cases "unmounted s")
  case True
  moreover assume "settled s"
  ultimately show ?thesis
    by (simp add: commit_def settled_def consistent_def)
next
  case mounted: False
  assume s: "settled s"
  show ?thesis
  proof (cases "render_throws s")
    case True
    with mounted s show ?thesis
      by (simp add: commit_def unmount_def settled_def consistent_def stopCamera_fields
          camera_tasks_def)
  next
    case False
    with mounted s show ?thesis
      by (simp add: commit_def settled_def consistent_def camera_tasks_def)
  qed
qed

lemma settled_preferred:
  assumes "consistent s" "camera_tasks s \<le> 1" "AwaitPreferred \<in> set (pending s)"
  shows "settled (preferred_settled outcome s)"
proof (cases outcome)
  case (Inl e)
  with assms preferred_rejected_fields(6) [of s e] show ?thesis
    by (auto simp: consistent_def settled_def preferred_rejected_fields(1-5))
next
  case (Inr st)
  with assms preferred_resolved_tasks [of s st] show ?thesis
    by (auto simp: consistent_def settled_def preferred_resolved_fields)
qed

lemma settled_fallback:
  assumes "consistent s" "camera_tasks s \<le> 1" "AwaitFallback \<in> set (pending s)"
  shows "settled (fallback_settled outcome s)"
proof (cases outcome)
  case (Inl e)
  with assms fallback_rejected_tasks [of s e] show ?thesis
    by (auto simp: consistent_def settled_def fallback_rejected_fields)
next
  case (Inr st)
  with assms fallback_resolved_tasks [of s st] show ?thesis
    by (auto simp: consistent_def settled_def fallback_resolved_fields)
qed

lemma settled_handleCapture:
  assumes "consistent s"
  shows "settled (handleCapture frame s)"
  using assms by (auto simp: consistent_def settled_def handleCapture_fields)

lemma settled_onloadend:
  assumes "consistent s"
  shows "settled (onloadend b read s)"
  using assms by (auto simp: consistent_def settled_def onloadend_fields)

lemma settled_handleReset:
  assumes "consistent s" "camera_tasks (handleReset s) \<le> 1"
  shows "settled (handleReset s)"
  using assms by (auto simp: consistent_def settled_def handleReset_fields split: if_splits)

lemma settled_analysis:
  assumes "consistent s" "camera_tasks (analysis_settled b outcome s) \<le> 1"
  shows "settled (analysis_settled b outcome s)"
proof (cases outcome)
  case (Inl e)
  with assms show ?thesis
    by (auto simp: consistent_def settled_def analysis_rejected_fields split: if_splits)
next
  case (Inr v)
  with assms show ?thesis
    by (auto simp: consistent_def settled_def analysis_resolved_fields)
qed

lemma consistent_dialog:
  assumes "consistent s"
  shows "consistent (open_file_dialog s)" "consistent (handleFileUpload s)"
    "consistent (s\<lparr>pending := remove1 AwaitPick (pending s)\<rparr>)"
  using assms by (simp_all add: consistent_def dialog_fields)

lemma consistent_step:
  assumes "consistent s" "camera_tasks s \<le> 1" "camera_tasks (scanner_step ev s) \<le> 1"
  shows "consistent (scanner_step ev s)"
proof (cases ev)
  case (ClickCapture frame)
  with assms(1) show ?thesis
    by (simp add: consistent_commit settled_handleCapture)
next
  case ClickUpload
  with assms(1) show ?thesis by (simp add: consistent_dialog)
next
  case FileChosen
  with assms(1) show ?thesis by (simp add: consistent_dialog)
next
  case DialogCancelled
  with assms(1) show ?thesis by (simp add: consistent_dialog)
next
  case (FileRead read)
  with assms(1) show ?thesis
    by (simp add: consistent_commit settled_onloadend split: option.splits)
next
  case ClickReset
  with assms(1,3) show ?thesis
    by (simp add: consistent_commit settled_handleReset commit_fields split: if_splits)
next
  case (PreferredSettled outcome)
  with assms(1,2) show ?thesis
    by (simp add: consistent_commit settled_preferred)
next
  case (FallbackSettled outcome)
  with assms(1,2) show ?thesis
    by (simp add: consistent_commit settled_fallback)
next
  case (AnalysisSettled outcome)
  with assms(1,3) show ?thesis
    by (simp add: consistent_commit settled_analysis commit_fields split: option.splits)
qed

lemma consistent_mounted: "consistent (mounted supported)"
  unfolding mounted_def
  by (rule consistent_commit)
    (simp add: settled_def startCamera_fields, simp add: first_render_def camera_tasks_def)

lemma consistent_run:
  "consistent s \<Longrightarrow> no_overlap evs s \<Longrightarrow> consistent (scanner_run evs s)"
proof (induction evs arbitrary: s)
  case Nil
  then show ?case by simp
next
  case (Cons e es)
  from Cons.prems(2) have now: "camera_tasks s \<le> 1" and later: "no_overlap es (scanner_step e s)"
    by simp_all
  from later have "camera_tasks (scanner_step e s) \<le> 1" by (cases es) simp_all
  with Cons.prems(1) now have "consistent (scanner_step e s)" by (rule consistent_step)
  with later show ?case by (simp add: Cons.IH)
qed

lemma unavailable_only_by_fallback:
  assumes "mediaDevices s" "\<not> cameraNotFound s" "cameraNotFound (scanner_step ev s)"
  shows "\<exists>e. ev = FallbackSettled (Inl e) \<and> AwaitFallback \<in> set (pending s)"
proof (cases ev)
  case (ClickCapture frame)
  with assms show ?thesis
    by (simp add: commit_fields handleCapture_fields split: if_splits)
next
  case ClickUpload
  with assms show ?thesis by (simp add: dialog_fields split: if_splits)
next
  case FileChosen
  with assms show ?thesis by (simp add: dialog_fields split: if_splits)
next
  case DialogCancelled
  with assms show ?thesis by (simp split: if_splits)
next
  case (FileRead read)
  with assms show ?thesis
    by (simp add: commit_fields onloadend_fields split: option.splits)
next
  case ClickReset
  with assms show ?thesis
    by (simp add: commit_fields handleReset_fields split: if_splits)
next
  case (PreferredSettled outcome)
  with assms show ?thesis
    by (cases outcome)
      (simp_all add: commit_fields preferred_rejected_fields preferred_resolved_fields
        split: if_splits)
next
  case (FallbackSettled outcome)
  with assms show ?thesis
    by (cases outcome)
      (simp_all add: commit_fields fallback_rejected_fields fallback_resolved_fields
        split: if_splits)
next
  case (AnalysisSettled outcome)
  with assms show ?thesis
    by (cases outcome)
      (simp_all add: commit_fields analysis_rejected_fields analysis_resolved_fields
        split: option.splits if_splits)
qed

lemma fallback_only_after_rejection:
  assumes "AwaitFallback \<notin> set (pending s)" "AwaitFallback \<in> set (pending (scanner_step ev s))"
  shows "\<exists>e. ev = PreferredSettled (Inl e) \<and> AwaitPreferred \<in> set (pending s)"
proof (cases ev)
  case (ClickCapture frame)
  with assms show ?thesis
    by (simp add: scanner_defs split: if_splits option.splits)
next
  case ClickUpload
  with assms show ?thesis by (simp add: scanner_defs split: if_splits)
next
  case FileChosen
  with assms show ?thesis by (auto simp: scanner_defs split: if_splits)
next
  case DialogCancelled
  with assms show ?thesis by (auto split: if_splits)
next
  case (FileRead read)
  with assms show ?thesis
    by (auto simp: scanner_defs split: option.splits if_splits)
next
  case ClickReset
  with assms show ?thesis
    by (auto simp: scanner_defs split: if_splits option.splits)
next
  case (PreferredSettled outcome)
  with assms show ?thesis
    by (cases outcome) (auto simp: scanner_defs split: if_splits option.splits)
next
  case (FallbackSettled outcome)
  with assms show ?thesis
    by (cases outcome) (auto simp: scanner_defs split: if_splits option.splits)
next
  case (AnalysisSettled outcome)
  with assms show ?thesis
    by (cases outcome) (auto simp: scanner_defs split: if_splits option.splits)
qed


lemma startCamera_unsupported:
  "\<not> mediaDevices s \<Longrightarrow>
     startCamera s =
       s\<lparr>cameraNotFound := True,
         scanner.error := Some ''Your browser does not support camera access.''\<rparr>"
  by (simp add: startCamera_def)

lemma startCamera_supported:
  assumes "mediaDevices s"
  shows "trace (startCamera s) = trace s @ map TrackStop (held_tracks s) @ [GetUserMedia preferred]"
    and "pending (startCamera s) = pending s @ [AwaitPreferred]"
    and "streamRef (startCamera s) = None"
    and "\<not> cameraNotFound (startCamera s)"
  using assms by (simp_all add: startCamera_def Let_def stopCamera_fields held_tracks_def)

lemma preferred_rejected:
  "preferred_settled (Inl e) s =
     s\<lparr>trace := trace s @
          [ConsoleWarn ''Preferred camera constraints failed, falling back to simple video constraint.'' e,
           GetUserMedia fallback],
       pending := remove1 AwaitPreferred (pending s) @ [AwaitFallback]\<rparr>"
  by (simp add: preferred_settled_def)

lemma fallback_rejected:
  "fallback_settled (Inl e) s =
     s\<lparr>trace := trace s @
          [ConsoleError ''All camera constraints failed:'' e,
           ConsoleError ''Camera access error:'' e],
       pending := remove1 AwaitFallback (pending s),
       cameraNotFound := True,
       scanner.error := Some
         (if name_of e \<in> {''NotFoundError'', ''DevicesNotFoundError''} then
            ''No camera found on this device.''
          else if name_of e \<in> {''NotAllowedError'', ''PermissionDeniedError''} then
            ''Camera permission denied. Please enable it in your settings.''
          else ''Unable to access camera. Please use the gallery instead.'')\<rparr>"
  by (simp add: fallback_settled_def camera_failed_def camera_message_def)

lemma resolved_trace:
  "trace (preferred_settled (Inr st) s) = trace s"
  "trace (fallback_settled (Inr st) s) = trace s"
  by (simp_all add: preferred_settled_def fallback_settled_def attach_def Let_def
      split: option.splits)

text \<open>
  C4, as the claim states it, fails at two inputs. In a browser without
  \<open>getUserMedia\<close> the unavailable state is reported on mount although no attempt was
  made. In \<open>overlapping_starts\<close> both attempts of the second invocation failed and the
  unavailable state is reported, while \<open>streamRef\<close> holds the stream that the first
  invocation obtained, its track capturing.
\<close>

theorem unavailable_without_attempt_or_with_stream:
  "cameraNotFound (mounted False)
   \<and> scanner.error (mounted False) = Some ''Your browser does not support camera access.''
   \<and> trace (mounted False) = []
   \<and> pending (mounted False) = []
   \<and> cameraNotFound overlapping_starts
   \<and> scanner.error overlapping_starts = Some ''No camera found on this device.''
   \<and> streamRef overlapping_starts = Some (MediaStream [7])
   \<and> 7 \<in> live overlapping_starts"
  by (simp add: overlapping_starts_def scanner_defs)

text \<open>
  C4, amended. Called in a browser without \<open>getUserMedia\<close> (state \<open>u\<close>), \<open>startCamera\<close>
  reports the unavailable state at once, with a message of its own, and attempts
  nothing. Called in a browser with it (state \<open>s\<close>), it releases the stream held and
  makes one call with the preferred constraints. When that call is rejected, the
  fallback call is made exactly once: the piece resumed then (in any state \<open>p\<close>) logs a
  warning, makes one fallback call and awaits it; the pieces resumed when a call
  resolves or when the fallback call is rejected make no call. When the fallback
  call is rejected, the unavailable state is reported with the message chosen by the
  name of that rejection: no device found, permission denied, or any other failure.
  In a browser with \<open>getUserMedia\<close> nothing else reports the unavailable state: an
  event that turns \<open>cameraNotFound\<close> true (from state \<open>q\<close>) is the rejection of an
  awaited fallback call, and a fallback call comes to be awaited (from state \<open>r\<close>)
  only by the rejection of an awaited preferred call. In every run from mount in
  which no two invocations of \<open>startCamera\<close> overlap, \<open>streamRef\<close> is null whenever
  the unavailable state is reported.
\<close>

theorem startCamera_fallback_once:
  "(\<not> mediaDevices u \<longrightarrow>
      startCamera u =
        u\<lparr>cameraNotFound := True,
          scanner.error := Some ''Your browser does not support camera access.''\<rparr>)
   \<and> (mediaDevices s \<longrightarrow>
      trace (startCamera s) = trace s @ map TrackStop (held_tracks s) @ [GetUserMedia preferred]
      \<and> pending (startCamera s) = pending s @ [AwaitPreferred]
      \<and> streamRef (startCamera s) = None
      \<and> \<not> cameraNotFound (startCamera s))
   \<and> preferred_settled (Inl e1) p =
       p\<lparr>trace := trace p @
            [ConsoleWarn ''Preferred camera constraints failed, falling back to simple video constraint.'' e1,
             GetUserMedia fallback],
         pending := remove1 AwaitPreferred (pending p) @ [AwaitFallback]\<rparr>
   \<and> trace (preferred_settled (Inr st) p) = trace p
   \<and> trace (fallback_settled (Inr st) p) = trace p
   \<and> fallback_settled (Inl e2) p =
       p\<lparr>trace := trace p @
            [ConsoleError ''All camera constraints failed:'' e2,
             ConsoleError ''Camera access error:'' e2],
         pending := remove1 AwaitFallback (pending p),
         cameraNotFound := True,
         scanner.error := Some
           (if name_of e2 \<in> {''NotFoundError'', ''DevicesNotFoundError''} then
              ''No camera found on this device.''
            else if name_of e2 \<in> {''NotAllowedError'', ''PermissionDeniedError''} then
              ''Camera permission denied. Please enable it in your settings.''
            else ''Unable to access camera. Please use the gallery instead.'')\<rparr>
   \<and> (mediaDevices q \<and> \<not> cameraNotFound q \<and> cameraNotFound (scanner_step ev q) \<longrightarrow>
        (\<exists>e. ev = FallbackSettled (Inl e)) \<and> AwaitFallback \<in> set (pending q))
   \<and> (AwaitFallback \<notin> set (pending r) \<and> AwaitFallback \<in> set (pending (scanner_step ev' r)) \<longrightarrow>
        (\<exists>e. ev' = PreferredSettled (Inl e)) \<and> AwaitPreferred \<in> set (pending r))
   \<and> (no_overlap evs (mounted supported)
        \<and> cameraNotFound (scanner_run evs (mounted supported)) \<longrightarrow>
        streamRef (scanner_run evs (mounted supported)) = None)"
proof (intro conjI impI)
  assume "\<not> mediaDevices u"
  then show "startCamera u =
      u\<lparr>cameraNotFound := True,
        scanner.error := Some ''Your browser does not support camera access.''\<rparr>"
    by (rule startCamera_unsupported)
next
  assume "mediaDevices s"
  then show "trace (startCamera s) =
      trace s @ map TrackStop (held_tracks s) @ [GetUserMedia preferred]"
    and "pending (startCamera s) = pending s @ [AwaitPreferred]"
    and "streamRef (startCamera s) = None"
    and "\<not> cameraNotFound (startCamera s)"
    by (simp_all add: startCamera_supported)
next
  show "preferred_settled (Inl e1) p =
       p\<lparr>trace := trace p @
            [ConsoleWarn ''Preferred camera constraints failed, falling back to simple video constraint.'' e1,
             GetUserMedia fallback],
         pending := remove1 AwaitPreferred (pending p) @ [AwaitFallback]\<rparr>"
    by (rule preferred_rejected)
next
  show "trace (preferred_settled (Inr st) p) = trace p"
    and "trace (fallback_settled (Inr st) p) = trace p"
    by (rule resolved_trace)+
next
  show "fallback_settled (Inl e2) p =
       p\<lparr>trace := trace p @
            [ConsoleError ''All camera constraints failed:'' e2,
             ConsoleError ''Camera access error:'' e2],
         pending := remove1 AwaitFallback (pending p),
         cameraNotFound := True,
         scanner.error := Some
           (if name_of e2 \<in> {''NotFoundError'', ''DevicesNotFoundError''} then
              ''No camera found on this device.''
            else if name_of e2 \<in> {''NotAllowedError'', ''PermissionDeniedError''} then
              ''Camera permission denied. Please enable it in your settings.''
            else ''Unable to access camera. Please use the gallery instead.'')\<rparr>"
    by (rule fallback_rejected)
next
  assume "mediaDevices q \<and> \<not> cameraNotFound q \<and> cameraNotFound (scanner_step ev q)"
  with unavailable_only_by_fallback [of q ev]
  show "\<exists>e. ev = FallbackSettled (Inl e)" and "AwaitFallback \<in> set (pending q)"
    by blast+
next
  assume "AwaitFallback \<notin> set (pending r) \<and> AwaitFallback \<in> set (pending (scanner_step ev' r))"
  with fallback_only_after_rejection [of r ev']
  show "\<exists>e. ev' = PreferredSettled (Inl e)" and "AwaitPreferred \<in> set (pending r)"
    by blast+
next
  assume run: "no_overlap evs (mounted supported)
      \<and> cameraNotFound (scanner_run evs (mounted supported))"
  with consistent_mounted have "consistent (scanner_run evs (mounted supported))"
    by (simp add: consistent_run)
  with run show "streamRef (scanner_run evs (mounted supported)) = None"
    by (simp add: consistent_def)
qed

lemma denied_once_state:
  "denied_once =
     \<lparr>scanner.loading = False, result = None, scanner.error = None, isCameraReady = False,
      capturedImage = None, cameraNotFound = False,
      videoRef = Some \<lparr>srcObject = None\<rparr>, streamRef = None,
      mediaDevices = True, unmounted = False, live = {},
      trace = [GetUserMedia preferred,
               ConsoleWarn ''Preferred camera constraints failed, falling back to simple video constraint.''
                 (Rejected ''OverconstrainedError'' ''facingMode''),
               GetUserMedia fallback],
      pending = [AwaitFallback]\<rparr>"
  by (simp add: denied_once_def scanner_defs)

theorem startCamera_fallback_once_witness:
  "\<not> mediaDevices (first_render False)
   \<and> startCamera (first_render False) =
       (first_render False)
         \<lparr>cameraNotFound := True,
          scanner.error := Some ''Your browser does not support camera access.''\<rparr>
   \<and> mediaDevices (first_render True)
   \<and> trace (startCamera (first_render True)) = [GetUserMedia preferred]
   \<and> pending (startCamera (first_render True)) = [AwaitPreferred]
   \<and> trace (preferred_settled (Inl (Rejected ''OverconstrainedError'' ''facingMode'')) (mounted True)) =
       [GetUserMedia preferred,
        ConsoleWarn ''Preferred camera constraints failed, falling back to simple video constraint.''
          (Rejected ''OverconstrainedError'' ''facingMode''),
        GetUserMedia fallback]
   \<and> scanner.error
        (fallback_settled (Inl (Rejected ''NotAllowedError'' ''Permission denied'')) denied_once) =
       Some ''Camera permission denied. Please enable it in your settings.''
   \<and> mediaDevices denied_once \<and> \<not> cameraNotFound denied_once
   \<and> cameraNotFound
        (scanner_step (FallbackSettled (Inl (Rejected ''NotAllowedError'' ''Permission denied'')))
           denied_once)
   \<and> AwaitFallback \<in> set (pending denied_once)
   \<and> AwaitFallback \<notin> set (pending (mounted True))
   \<and> AwaitFallback \<in> set (pending denied_once)
   \<and> AwaitPreferred \<in> set (pending (mounted True))
   \<and> no_overlap
        [PreferredSettled (Inl (Rejected ''OverconstrainedError'' ''facingMode'')),
         FallbackSettled (Inl (Rejected ''NotAllowedError'' ''Permission denied''))]
        (mounted True)
   \<and> cameraNotFound
        (scanner_run
           [PreferredSettled (Inl (Rejected ''OverconstrainedError'' ''facingMode'')),
            FallbackSettled (Inl (Rejected ''NotAllowedError'' ''Permission denied''))]
           (mounted True))
   \<and> streamRef
        (scanner_run
           [PreferredSettled (Inl (Rejected ''OverconstrainedError'' ''facingMode'')),
            FallbackSettled (Inl (Rejected ''NotAllowedError'' ''Permission denied''))]
           (mounted True)) = None"
  using startCamera_fallback_once
    [of "first_render False" "first_render True"
      "Rejected ''OverconstrainedError'' ''facingMode''" "mounted True" "MediaStream [0]"
      "Rejected ''NotAllowedError'' ''Permission denied''" denied_once
      "FallbackSettled (Inl (Rejected ''NotAllowedError'' ''Permission denied''))"
      "mounted True"
      "PreferredSettled (Inl (Rejected ''OverconstrainedError'' ''facingMode''))"
      "[PreferredSettled (Inl (Rejected ''OverconstrainedError'' ''facingMode'')),
        FallbackSettled (Inl (Rejected ''NotAllowedError'' ''Permission denied''))]"
      True]
  by (simp add: denied_once_def scanner_defs camera_tasks_def)

section \<open>The edit view: properties\<close>

text \<open>
  In the edit view the number of \<open>editImage\<close> calls in flight is one when \<open>loading\<close>
  is true and zero otherwise, in every state the view reaches; with \<open>loading\<close> true
  "Apply Changes" is disabled and a click on it changes nothing.
\<close>

lemma editor_step_keeps_count:
  "in_flight s = (if editor.loading s then 1 else 0) \<Longrightarrow>
     in_flight (editor_step ev s) = (if editor.loading (editor_step ev s) then 1 else 0)"
  by (cases ev)
    (auto simp: handleEdit_def edit_settled_def handleFileChange_def editor_onloadend_def
      reset_def apply_enabled_def split: option.splits)

lemma editor_run_keeps_count:
  "in_flight s = (if editor.loading s then 1 else 0) \<Longrightarrow>
     in_flight (editor_run evs s) = (if editor.loading (editor_run evs s) then 1 else 0)"
proof (induction evs arbitrary: s)
  case Nil
  then show ?case by simp
next
  case (Cons ev evs)
  from Cons.prems have "in_flight (editor_step ev s) =
      (if editor.loading (editor_step ev s) then 1 else 0)"
    by (rule editor_step_keeps_count)
  from Cons.IH [OF this] show ?case by simp
qed

lemma editor_single_flight:
  "in_flight (editor_run evs editor_first_render) =
     (if editor.loading (editor_run evs editor_first_render) then 1 else 0)"
  "editor.loading e \<Longrightarrow> \<not> apply_enabled e \<and> editor_step ClickApply e = e"
  by (rule editor_run_keeps_count, simp add: editor_first_render_def)
    (simp add: apply_enabled_def)

lemma applying_in_flight:
  "editor.loading applying \<and> in_flight applying = 1 \<and> \<not> apply_enabled applying"
  by (simp add: applying_def editor_first_render_def handleFileChange_def editor_onloadend_def
      handleEdit_def apply_enabled_def trim_def is_js_space_def units_def)

end
